theory Spec2Isabelle
  imports Complex_Main "HOL-Library.Sublist"
begin

section \<open>The resilient completion call (backend/api.js, callWithBreaker)\<close>

text \<open>
  The breaker is three module-level variables of \<^verbatim>\<open>backend/api.js\<close>:
  \<^verbatim>\<open>circuitBreakerState\<close>, \<^verbatim>\<open>failureCount\<close> and \<^verbatim>\<open>lastFailureTime\<close>. They are
  modelled as one record that every call takes and returns. \<^verbatim>\<open>failureCount\<close> is a
  JavaScript number that is only ever reset to 0 or incremented by one; it is modelled as
  a natural number (the increment is exact below \<open>2^53\<close>). \<^verbatim>\<open>Date.now()\<close> is a number of
  milliseconds, modelled as an integer supplied by the environment.
\<close>

datatype breaker = CLOSED | OPEN | HALF_OPEN

record cb =
  circuitBreakerState :: breaker
  failureCount :: nat
  lastFailureTime :: int

definition cb_init :: cb where
  "cb_init = \<lparr>circuitBreakerState = CLOSED, failureCount = 0, lastFailureTime = 0\<rparr>"

definition CIRCUIT_BREAKER_THRESHOLD :: nat where
  "CIRCUIT_BREAKER_THRESHOLD = 3"

definition CIRCUIT_BREAKER_RESET_TIME :: int where
  "CIRCUIT_BREAKER_RESET_TIME = 30000"

text \<open>
  The exceptions that travel through the orchestration core. \<open>CircuitOpen\<close> is
  \<^verbatim>\<open>new Error("AI temporarily unavailable (circuit open)")\<close>, \<open>OpenAIFailed\<close> is the
  \<^verbatim>\<open>new Error("OpenAI call failed")\<close> that \<^verbatim>\<open>callOpenAI\<close> throws, \<open>RedisUnavailable\<close> is
  whatever the Redis client raises when the cache cannot be reached, \<open>NotAFunction m\<close>
  is the \<^verbatim>\<open>TypeError\<close> of calling a method \<open>m\<close> that the object does not have, and
  \<open>Thrown msg\<close> is any other exception, raised by a collaborator.
\<close>

datatype error =
    CircuitOpen
  | OpenAIFailed
  | RedisUnavailable
  | NotAFunction string
  | Thrown string

datatype provider = DeepSeek | OpenAI

text \<open>
  What the outside world does during one call of \<^verbatim>\<open>callWithBreaker\<close>: the clock value
  read on entry (line 1210), the outcome of \<^verbatim>\<open>callDeepSeek\<close> (\<open>None\<close> when it throws),
  the clock value read in the catch block (line 1234), and the outcome of \<^verbatim>\<open>callOpenAI\<close>
  (\<open>None\<close> when it throws). The last two are only looked at when the code reaches them.
\<close>

record call_env =
  now_entry :: int
  deepseek :: "string option"
  now_failure :: int
  openai :: "string option"

text \<open>Lines 1209-1218: the check of the breaker state before any provider is tried.\<close>

definition gate :: "int \<Rightarrow> cb \<Rightarrow> error + cb" where
  "gate now s =
     (if circuitBreakerState s = OPEN then
        (let elapsed = now - lastFailureTime s in
         if elapsed < CIRCUIT_BREAKER_RESET_TIME then Inl CircuitOpen
         else Inr (s\<lparr>circuitBreakerState := HALF_OPEN\<rparr>))
      else Inr s)"

text \<open>Lines 1225-1226 and 1244-1245: what either provider's success does.\<close>

definition record_success :: "cb \<Rightarrow> cb" where
  "record_success s = s\<lparr>failureCount := 0, circuitBreakerState := CLOSED\<rparr>"

text \<open>Lines 1233-1239: what the failure of the primary provider does.\<close>

definition record_failure :: "int \<Rightarrow> cb \<Rightarrow> cb" where
  "record_failure now s =
     (let s1 = s\<lparr>failureCount := failureCount s + 1, lastFailureTime := now\<rparr>
      in if failureCount s1 \<ge> CIRCUIT_BREAKER_THRESHOLD
         then s1\<lparr>circuitBreakerState := OPEN\<rparr> else s1)"

text \<open>
  Lines 1220-1251: the try block. The result is the returned text or the exception, the
  breaker afterwards, and the providers that were tried, in order.
\<close>

definition attempt :: "call_env \<Rightarrow> cb \<Rightarrow> (error + string) \<times> cb \<times> provider list" where
  "attempt e s =
     (case deepseek e of
        Some result \<Rightarrow> (Inr result, record_success s, [DeepSeek])
      | None \<Rightarrow>
          (let s1 = record_failure (now_failure e) s in
           case openai e of
             Some result \<Rightarrow> (Inr result, record_success s1, [DeepSeek, OpenAI])
           | None \<Rightarrow> (Inl OpenAIFailed, s1, [DeepSeek, OpenAI])))"

definition callWithBreaker :: "call_env \<Rightarrow> cb \<Rightarrow> (error + string) \<times> cb \<times> provider list" where
  "callWithBreaker e s =
     (case gate (now_entry e) s of
        Inl err \<Rightarrow> (Inl err, s, [])
      | Inr s1 \<Rightarrow> attempt e s1)"

text \<open>The breaker after a sequence of calls made one after the other.\<close>

fun run :: "cb \<Rightarrow> call_env list \<Rightarrow> cb" where
  "run s [] = s"
| "run s (e # es) = run (fst (snd (callWithBreaker e s))) es"

definition primary_fails :: "call_env \<Rightarrow> bool" where
  "primary_fails e = (deepseek e = None)"

definition both_fail :: "call_env \<Rightarrow> bool" where
  "both_fail e = (deepseek e = None \<and> openai e = None)"

text \<open>
  The breaker as a transition system. Between two \<^verbatim>\<open>await\<close>s the code runs without
  interruption, so the variables change in three kinds of atomic step: the gate moving an
  \<open>OPEN\<close> breaker to \<open>HALF_OPEN\<close> once the reset time has passed, a provider's success,
  and the primary's failure. Calls that overlap in time interleave these steps; the
  states below are the ones any interleaving can reach from the initial values.
\<close>

inductive cb_step :: "cb \<Rightarrow> cb \<Rightarrow> bool" where
  half_open: "circuitBreakerState s = OPEN \<Longrightarrow> \<not> now - lastFailureTime s < CIRCUIT_BREAKER_RESET_TIME
              \<Longrightarrow> cb_step s (s\<lparr>circuitBreakerState := HALF_OPEN\<rparr>)"
| success: "cb_step s (record_success s)"
| failure: "cb_step s (record_failure now s)"

inductive reachable :: "cb \<Rightarrow> bool" where
  init: "reachable cb_init"
| step: "reachable s \<Longrightarrow> cb_step s s' \<Longrightarrow> reachable s'"

definition cb_inv :: "cb \<Rightarrow> bool" where
  "cb_inv s = ((circuitBreakerState s = OPEN \<or> circuitBreakerState s = HALF_OPEN
                 \<longrightarrow> CIRCUIT_BREAKER_THRESHOLD \<le> failureCount s)
               \<and> (failureCount s = 0 \<longrightarrow> circuitBreakerState s = CLOSED))"

section \<open>Strings\<close>

text \<open>
  The JavaScript string operations the orchestration core uses, on \<open>string\<close>. The text
  they work on is taken to be ASCII: \<open>toLowerCase\<close> and \<open>toUpperCase\<close> change the letters
  A-Z and a-z and leave every other character as it is, and \<open>trim\<close> removes the ASCII
  white space and the no-break space from both ends.
\<close>

definition lower_char :: "char \<Rightarrow> char" where
  "lower_char c =
     (case map_of (zip ''ABCDEFGHIJKLMNOPQRSTUVWXYZ'' ''abcdefghijklmnopqrstuvwxyz'') c of
        Some d \<Rightarrow> d | None \<Rightarrow> c)"

definition upper_char :: "char \<Rightarrow> char" where
  "upper_char c =
     (case map_of (zip ''abcdefghijklmnopqrstuvwxyz'' ''ABCDEFGHIJKLMNOPQRSTUVWXYZ'') c of
        Some d \<Rightarrow> d | None \<Rightarrow> c)"

definition toLowerCase :: "string \<Rightarrow> string" where
  "toLowerCase s = map lower_char s"

definition toUpperCase :: "string \<Rightarrow> string" where
  "toUpperCase s = map upper_char s"

definition is_space :: "char \<Rightarrow> bool" where
  "is_space c = (c \<in> set [CHR 0x09, CHR 0x0A, CHR 0x0B, CHR 0x0C, CHR 0x0D, CHR 0x20, CHR 0xA0])"

definition trim :: "string \<Rightarrow> string" where
  "trim s = rev (dropWhile is_space (rev (dropWhile is_space s)))"

text \<open>\<^verbatim>\<open>s.includes(p)\<close>: \<open>p\<close> occurs in \<open>s\<close> as a contiguous substring.\<close>

fun str_includes :: "string \<Rightarrow> string \<Rightarrow> bool" where
  "str_includes [] p = (p = [])"
| "str_includes (c # cs) p = (prefix p (c # cs) \<or> str_includes cs p)"

text \<open>\<^verbatim>\<open>xs.slice(-n)\<close>: the last \<open>n\<close> elements, or all of them when there are fewer.\<close>

definition slice_last :: "nat \<Rightarrow> 'a list \<Rightarrow> 'a list" where
  "slice_last n xs = drop (length xs - n) xs"

section \<open>Data model\<close>

datatype role = User | Assistant | System

record turn =
  role :: role
  content :: string

text \<open>
  An intent is the object that \<^verbatim>\<open>classify\<close> returns: \<^verbatim>\<open>primary\<close>, \<^verbatim>\<open>confidence\<close> and the
  entity bag, the latter as an association list whose values are booleans or strings.
  The orchestrator reads the bag only through the truthiness of \<^verbatim>\<open>entities?.isFollowUp\<close>.
\<close>

datatype entity_value = EBool bool | EStr string

record intent =
  primary :: string
  confidence :: real
  entities :: "(string \<times> entity_value) list"

fun truthy :: "entity_value \<Rightarrow> bool" where
  "truthy (EBool b) = b"
| "truthy (EStr s) = (s \<noteq> [])"

definition isFollowUp :: "intent \<Rightarrow> bool" where
  "isFollowUp i = (case map_of (entities i) ''isFollowUp'' of None \<Rightarrow> False | Some v \<Rightarrow> truthy v)"

text \<open>
  The session context is the object kept in Redis under \<^verbatim>\<open>context:<userId>\<close>. Its slots
  are the ones the code reads or writes; a slot that is absent, \<^verbatim>\<open>undefined\<close> or
  \<^verbatim>\<open>null\<close> is \<open>None\<close>.
\<close>

record sessionContext =
  lastPart :: "string option"
  lastModel :: "string option"
  expecting :: "string option"
  lastIntent :: "string option"
  lastTopic :: "string option"

definition empty_context :: sessionContext where
  "empty_context = \<lparr>lastPart = None, lastModel = None, expecting = None,
                     lastIntent = None, lastTopic = None\<rparr>"

text \<open>A product reference; the orchestration core passes products through unread.\<close>

datatype product = Product (partNumber: string) (name: string)

text \<open>The UI actions, one constructor for each \<^verbatim>\<open>type\<close> tag that the code emits.\<close>

datatype action =
    InputPrompt string string
  | ButtonGroup "(string \<times> string) list"
  | NextSteps "(string \<times> string) list"
  | ProductCards "product list"
  | AddToCart string
  | TroubleshootingWizard "string list"
  | InstallationGuide string string string string "string list"
  | ConversationCompletion "string list"

fun action_type :: "action \<Rightarrow> string" where
  "action_type (InputPrompt field placeholder) = ''input_prompt''"
| "action_type (ButtonGroup buttons) = ''button_group''"
| "action_type (NextSteps buttons) = ''next_steps''"
| "action_type (ProductCards ps) = ''product_cards''"
| "action_type (AddToCart pn) = ''add_to_cart''"
| "action_type (TroubleshootingWizard steps) = ''troubleshooting_wizard''"
| "action_type (InstallationGuide video pdf time difficulty tools) = ''installation_guide''"
| "action_type (ConversationCompletion suggestions) = ''conversation_completion''"

text \<open>
  What a handler returns. \<^verbatim>\<open>products\<close> and \<^verbatim>\<open>actions\<close> may be missing from the object;
  a missing field is \<open>None\<close>.
\<close>

record agentResponse =
  message :: string
  products :: "product list option"
  actions :: "action list option"

text \<open>The envelope that \<^verbatim>\<open>formatResponse\<close> builds.\<close>

datatype metadata = Metadata (meta_intent: string) (meta_confidence: real)

record response =
  res_message :: string
  res_products :: "product list"
  res_actions :: "action list"
  res_metadata :: metadata

section \<open>The world a request runs in\<close>

text \<open>
  The mutable state outside a request: the breaker, the Redis contents (\<open>None\<close> while
  Redis cannot be reached, in which case every command raises) and a log of the
  completion providers tried so far. The log is not in the source; it records the
  calls of \<^verbatim>\<open>callDeepSeek\<close> and \<^verbatim>\<open>callOpenAI\<close> so that "no provider was called" can be
  stated. Expiry of keys is the environment's doing and is not modelled.
\<close>

record world =
  breaker :: cb
  redis :: "(string \<rightharpoonup> sessionContext) option"
  provider_log :: "provider list"

text \<open>
  The collaborators. Every call site of \<^verbatim>\<open>callWithBreaker\<close> builds its prompt from its
  own arguments, so the environment's behaviour during that call is given as a function
  of those arguments. \<open>json_intent\<close> is \<^verbatim>\<open>JSON.parse\<close> on the classification response
  (\<open>None\<close> when it throws); what it parses is taken to be an object, read through the
  three fields of an intent. \<open>conversation\<close> stands for steps 1-4 of the chat route
  (conversation lookup, time-out handling, storing the user message and replaying the
  history from the database) and \<open>store_reply\<close> for step 6.
\<close>

record env =
  classify_call :: "string \<Rightarrow> turn list \<Rightarrow> call_env"
  json_intent :: "string \<Rightarrow> intent option"
  general_call :: "string \<Rightarrow> turn list \<Rightarrow> call_env"
  install_call :: "string \<Rightarrow> call_env"
  order_call :: "string \<Rightarrow> turn list \<Rightarrow> call_env"
  conversation :: "string \<Rightarrow> string \<Rightarrow> world \<Rightarrow> (error + nat \<times> turn list) \<times> world"
  store_reply :: "nat \<Rightarrow> response \<Rightarrow> error option"

text \<open>\<^verbatim>\<open>callWithBreaker\<close> on the world: the breaker is updated and the log extended.\<close>

definition ai :: "call_env \<Rightarrow> world \<Rightarrow> (error + string) \<times> world" where
  "ai e w =
     (case callWithBreaker e (breaker w) of
        (r, s, tried) \<Rightarrow> (r, w\<lparr>breaker := s, provider_log := provider_log w @ tried\<rparr>))"

section \<open>Session context helpers (lines 61-92)\<close>

definition context_key :: "string \<Rightarrow> string" where
  "context_key userId = ''context:'' @ userId"

definition getUserContext :: "string \<Rightarrow> world \<Rightarrow> error + sessionContext" where
  "getUserContext userId w =
     (case redis w of
        None \<Rightarrow> Inl RedisUnavailable
      | Some st \<Rightarrow> Inr (case st (context_key userId) of Some data \<Rightarrow> data | None \<Rightarrow> empty_context))"

definition setUserContext :: "string \<Rightarrow> sessionContext \<Rightarrow> world \<Rightarrow> (error + unit) \<times> world" where
  "setUserContext userId ctx w =
     (case redis w of
        None \<Rightarrow> (Inl RedisUnavailable, w)
      | Some st \<Rightarrow> (Inr (), w\<lparr>redis := Some (st(context_key userId \<mapsto> ctx))\<rparr>))"

definition clearUserContext :: "string \<Rightarrow> world \<Rightarrow> (error + unit) \<times> world" where
  "clearUserContext userId w =
     (case redis w of
        None \<Rightarrow> (Inl RedisUnavailable, w)
      | Some st \<Rightarrow> (Inr (), w\<lparr>redis := Some (st(context_key userId := None))\<rparr>))"

text \<open>
  The two wrappers under the comment "Fall back for Redis". They catch the exception:
  the read returns \<^verbatim>\<open>null\<close> and the write does nothing.
\<close>

definition safeRedisGet :: "string \<Rightarrow> world \<Rightarrow> sessionContext option" where
  "safeRedisGet key w = (case redis w of None \<Rightarrow> None | Some st \<Rightarrow> st key)"

definition safeRedisSet :: "string \<Rightarrow> sessionContext \<Rightarrow> world \<Rightarrow> world" where
  "safeRedisSet key v w =
     (case redis w of None \<Rightarrow> w | Some st \<Rightarrow> w\<lparr>redis := Some (st(key \<mapsto> v))\<rparr>)"

section \<open>Conversation flow (getConversationContext, lines 110-136)\<close>

record flow =
  stage :: string
  topic :: "string option"

definition lastAssistantOf :: "turn list \<Rightarrow> turn option" where
  "lastAssistantOf history = find (\<lambda>h. role h = Assistant) (rev history)"

definition getConversationContext :: "turn list \<Rightarrow> flow" where
  "getConversationContext history =
     (if length history = 0 then \<lparr>stage = ''initial'', topic = None\<rparr>
      else case lastAssistantOf (slice_last 5 history) of
        None \<Rightarrow> \<lparr>stage = ''initial'', topic = None\<rparr>
      | Some lastAssistant \<Rightarrow>
          (let c = toLowerCase (content lastAssistant) in
           if str_includes c ''step'' \<or> str_includes c ''troubleshoot''
             then \<lparr>stage = ''diagnostic_given'', topic = Some ''troubleshooting''\<rparr>
           else if str_includes c ''compatible'' \<or> str_includes c ''model''
             then \<lparr>stage = ''ongoing'', topic = Some ''compatibility''\<rparr>
           else if str_includes c ''install''
             then \<lparr>stage = ''ongoing'', topic = Some ''installation''\<rparr>
           else if str_includes c ''part'' \<and> str_includes c ''$''
             then \<lparr>stage = ''ongoing'', topic = Some ''product_recommendation''\<rparr>
           else \<lparr>stage = ''ongoing'', topic = None\<rparr>))"

section \<open>Intent classification (IntentClassificationAgent.classify, lines 315-377)\<close>

text \<open>
  \<^verbatim>\<open>/^(should|would|do i|can i|is it|what if)/i\<close>, the pattern named \<^verbatim>\<open>questioning\<close>.
  (The other pattern of the table, \<^verbatim>\<open>affirmative\<close>, is never tested.)
\<close>

definition questioning :: "string \<Rightarrow> bool" where
  "questioning s =
     list_ex (\<lambda>p. prefix p (toLowerCase s))
       [''should'', ''would'', ''do i'', ''can i'', ''is it'', ''what if'']"

definition followUpIntent :: intent where
  "followUpIntent = \<lparr>primary = ''general_question'', confidence = 0.85,
     entities = [(''isFollowUp'', EBool True), (''context'', EStr ''troubleshooting'')]\<rparr>"

definition fallbackIntent :: intent where
  "fallbackIntent = \<lparr>primary = ''general_question'', confidence = 0.5, entities = []\<rparr>"

text \<open>Lines 340-376: the prompt is sent, and the response parsed.\<close>

definition classifyWithProvider :: "env \<Rightarrow> string \<Rightarrow> turn list \<Rightarrow> world \<Rightarrow> (error + intent) \<times> world" where
  "classifyWithProvider env query history w =
     (case ai (classify_call env query history) w of
        (Inl err, w') \<Rightarrow> (Inl err, w')
      | (Inr response, w') \<Rightarrow>
          (case json_intent env response of
             Some parsed \<Rightarrow> (Inr parsed, w')
           | None \<Rightarrow> (Inr fallbackIntent, w')))"

text \<open>
  Lines 322-338, the test that lets \<^verbatim>\<open>classify\<close> return before any prompt is built: the
  trimmed query matches \<^verbatim>\<open>questioning\<close>, the history has an assistant turn, the last one
  has non-empty content, and that content, lowered, includes "step" or "troubleshoot".
  The source nests these tests; each failing test falls through to the prompt.
\<close>

definition followUpAfterTroubleshooting :: "string \<Rightarrow> turn list \<Rightarrow> bool" where
  "followUpAfterTroubleshooting query history =
     (questioning (trim query) \<and>
      (case lastAssistantOf history of
         None \<Rightarrow> False
       | Some lastAssistant \<Rightarrow>
           content lastAssistant \<noteq> [] \<and>
           (let c = toLowerCase (content lastAssistant) in
            str_includes c ''step'' \<or> str_includes c ''troubleshoot'')))"

definition classify :: "env \<Rightarrow> string \<Rightarrow> turn list \<Rightarrow> world \<Rightarrow> (error + intent) \<times> world" where
  "classify env query history w =
     (if followUpAfterTroubleshooting query history then (Inr followUpIntent, w)
      else classifyWithProvider env query history w)"

section \<open>The orchestrator (AgentOrchestrator, lines 140-311)\<close>

text \<open>
  The handlers the constructor stores in \<^verbatim>\<open>this.agents\<close>, by entry point. A handler takes
  the world and returns its response or the exception it raises, and the world afterwards.
\<close>

type_synonym handler = "string \<Rightarrow> sessionContext \<Rightarrow> turn list \<Rightarrow> world \<Rightarrow> (error + agentResponse) \<times> world"

record agents =
  search :: handler
  check :: "string \<Rightarrow> sessionContext \<Rightarrow> turn list \<Rightarrow> string \<Rightarrow> world \<Rightarrow> (error + agentResponse) \<times> world"
  diagnose :: handler
  guide :: handler
  assist :: handler

definition handleGeneralQuery :: "env \<Rightarrow> string \<Rightarrow> turn list \<Rightarrow> world \<Rightarrow> (error + agentResponse) \<times> world" where
  "handleGeneralQuery env query history w =
     (case ai (general_call env query history) w of
        (Inl err, w') \<Rightarrow> (Inl err, w')
      | (Inr r, w') \<Rightarrow> (Inr \<lparr>message = r, products = None, actions = None\<rparr>, w'))"

text \<open>
  The switch of lines 186-214. Its default branch calls \<^verbatim>\<open>this.handleOutOfScope(query)\<close>.
  The class defines \<^verbatim>\<open>processQuery\<close>, \<^verbatim>\<open>routeToAgents\<close>, \<^verbatim>\<open>formatResponse\<close>,
  \<^verbatim>\<open>shouldOfferCompletion\<close> and \<^verbatim>\<open>handleGeneralQuery\<close> and nothing else, and no other
  file adds a method to it: \<^verbatim>\<open>this.handleOutOfScope\<close> is \<^verbatim>\<open>undefined\<close>, and calling it
  raises a \<^verbatim>\<open>TypeError\<close>.
\<close>

definition dispatch ::
  "env \<Rightarrow> agents \<Rightarrow> intent \<Rightarrow> string \<Rightarrow> sessionContext \<Rightarrow> turn list \<Rightarrow> string \<Rightarrow> world
     \<Rightarrow> (error + agentResponse) \<times> world" where
  "dispatch env ag i query ctx history userId w =
     (if primary i = ''product_search'' then search ag query ctx history w
      else if primary i = ''compatibility_check'' then check ag query ctx history userId w
      else if primary i = ''troubleshooting'' then diagnose ag query ctx history w
      else if primary i = ''installation_help'' then guide ag query ctx history w
      else if primary i = ''order_support'' then assist ag query ctx history w
      else if primary i = ''general_question'' then handleGeneralQuery env query history w
      else (Inl (NotAFunction ''this.handleOutOfScope''), w))"

text \<open>
  Lines 175-182, the continuation of a compatibility flow. \<^verbatim>\<open>routeToAgents\<close> assigns to
  \<^verbatim>\<open>intent.primary\<close>, to \<^verbatim>\<open>query\<close> and to \<^verbatim>\<open>context.expecting\<close>; the model returns the
  three values the rest of the function goes on with.
\<close>

definition continueCompatibilityFlow ::
  "intent \<Rightarrow> string \<Rightarrow> string \<Rightarrow> sessionContext \<Rightarrow> world
     \<Rightarrow> (error + intent \<times> string \<times> sessionContext) \<times> world" where
  "continueCompatibilityFlow i query userId ctx w =
     (if expecting ctx = Some ''model_number_for_compat'' then
        (let i1 = i\<lparr>primary := ''compatibility_check''\<rparr>;
             query1 = trim ((case lastPart ctx of None \<Rightarrow> [] | Some p \<Rightarrow> p) @ '' '' @ query);
             ctx1 = ctx\<lparr>expecting := None\<rparr>
         in case setUserContext userId ctx1 w of
              (Inl err, w1) \<Rightarrow> (Inl err, w1)
            | (Inr u, w1) \<Rightarrow> (Inr (i1, query1, ctx1), w1))
      else (Inr (i, query, ctx), w))"

text \<open>
  Lines 216-217, applied to what the switch produced: the context is written back with
  the last intent and topic, and the handler's response returned. \<^verbatim>\<open>processQuery\<close> reads
  \<^verbatim>\<open>intent\<close> after \<^verbatim>\<open>routeToAgents\<close> has assigned to it, so the intent is returned too.
\<close>

definition persistAndReturn ::
  "string \<Rightarrow> sessionContext \<Rightarrow> intent \<Rightarrow> flow \<Rightarrow> (error + agentResponse) \<times> world
     \<Rightarrow> (error + agentResponse \<times> intent) \<times> world" where
  "persistAndReturn userId ctx i flowContext res =
     (case res of
        (Inl err, w2) \<Rightarrow> (Inl err, w2)
      | (Inr r, w2) \<Rightarrow>
          (case setUserContext userId
                  (ctx\<lparr>lastIntent := Some (primary i), lastTopic := topic flowContext\<rparr>) w2 of
             (Inl err, w3) \<Rightarrow> (Inl err, w3)
           | (Inr u, w3) \<Rightarrow> (Inr (r, i), w3)))"

definition routeToAgents ::
  "env \<Rightarrow> agents \<Rightarrow> intent \<Rightarrow> string \<Rightarrow> string \<Rightarrow> turn list \<Rightarrow> world
     \<Rightarrow> (error + agentResponse \<times> intent) \<times> world" where
  "routeToAgents env ag i query userId history w =
     (case getUserContext userId w of
        Inl err \<Rightarrow> (Inl err, w)
      | Inr ctx \<Rightarrow>
         (let flowContext = getConversationContext history in
          if isFollowUp i \<and> topic flowContext = Some ''troubleshooting'' then
            (case handleGeneralQuery env query history w of
               (Inl err, w') \<Rightarrow> (Inl err, w')
             | (Inr r, w') \<Rightarrow> (Inr (r, i), w'))
          else
            (case continueCompatibilityFlow i query userId ctx w of
               (Inl err, w1) \<Rightarrow> (Inl err, w1)
             | (Inr (i1, query1, ctx1), w1) \<Rightarrow>
                 persistAndReturn userId ctx1 i1 flowContext
                   (dispatch env ag i1 query1 ctx1 history userId w1))))"

text \<open>Lines 247-277. The message is lowered before the phrases are looked for.\<close>

definition completionIndicators :: "string list" where
  "completionIndicators =
     [''you're welcome'', ''you're very welcome'', ''glad i could help'', ''happy to help'',
      ''let me know if you need'', ''any other questions'', ''anything else'', ''feel free to'',
      ''good luck with the repair'', ''good luck with'', ''hope this helps'',
      ''if you run into any other issues'']"

definition hasInputPrompt :: "action list \<Rightarrow> bool" where
  "hasInputPrompt as =
     list_ex (\<lambda>a. action_type a = ''input_prompt'' \<or> action_type a = ''button_group''
                   \<or> action_type a = ''next_steps'') as"

definition shouldOfferCompletion :: "agentResponse \<Rightarrow> bool" where
  "shouldOfferCompletion agentResponse =
     (let msg = toLowerCase (message agentResponse) in
      if (case actions agentResponse of None \<Rightarrow> False | Some as \<Rightarrow> hasInputPrompt as) then False
      else list_ex (\<lambda>indicator. str_includes msg indicator) completionIndicators)"

definition completionOffer :: action where
  "completionOffer =
     ConversationCompletion [''Find another part'', ''Ask something else'', ''Start new chat'']"

definition formatResponse :: "agentResponse \<Rightarrow> intent \<Rightarrow> response" where
  "formatResponse agentResponse i =
     (let r = \<lparr>res_message = message agentResponse,
                res_products = (case products agentResponse of None \<Rightarrow> [] | Some ps \<Rightarrow> ps),
                res_actions = (case actions agentResponse of None \<Rightarrow> [] | Some as \<Rightarrow> as),
                res_metadata = Metadata (primary i) (confidence i)\<rparr>
      in if shouldOfferCompletion agentResponse
         then r\<lparr>res_actions := res_actions r @ [completionOffer]\<rparr>
         else r)"

definition processQuery ::
  "env \<Rightarrow> agents \<Rightarrow> string \<Rightarrow> string \<Rightarrow> turn list \<Rightarrow> world \<Rightarrow> (error + response) \<times> world" where
  "processQuery env ag userId query history w =
     (case classify env query history w of
        (Inl err, w1) \<Rightarrow> (Inl err, w1)
      | (Inr i, w1) \<Rightarrow>
         (case routeToAgents env ag i query userId history w1 of
            (Inl err, w2) \<Rightarrow> (Inl err, w2)
          | (Inr (r, i'), w2) \<Rightarrow> (Inr (formatResponse r i'), w2)))"

section \<open>The chat route (app.post('/api/chat'), lines 1360-1485)\<close>

text \<open>
  The route from \<^verbatim>\<open>message.trim()\<close> on; \<open>message\<close> is the request's message after the
  route has coerced it to a string. The whole body is one try block, and its catch
  answers with status 500.
\<close>

datatype http_response =
    Json200 response nat
  | Json400 string
  | Json500 string string

definition chat_try :: "env \<Rightarrow> agents \<Rightarrow> string \<Rightarrow> string \<Rightarrow> world \<Rightarrow> (error + http_response) \<times> world" where
  "chat_try env ag userId message0 w =
     (let msg = trim message0 in
      if msg = [] then (Inr (Json400 ''Message is required''), w)
      else case conversation env userId msg w of
        (Inl err, w1) \<Rightarrow> (Inl err, w1)
      | (Inr (convId, history), w1) \<Rightarrow>
         (case processQuery env ag userId msg history w1 of
            (Inl err, w2) \<Rightarrow> (Inl err, w2)
          | (Inr r, w2) \<Rightarrow>
             (case store_reply env convId r of
                Some err \<Rightarrow> (Inl err, w2)
              | None \<Rightarrow> (Inr (Json200 r convId), w2))))"

definition chat :: "env \<Rightarrow> agents \<Rightarrow> string \<Rightarrow> string \<Rightarrow> world \<Rightarrow> http_response \<times> world" where
  "chat env ag userId message0 w =
     (case chat_try env ag userId message0 w of
        (Inl err, w') \<Rightarrow>
          (Json500 ''Server error'' ''I'm having trouble right now. Please try again shortly.'', w')
      | (Inr r, w') \<Rightarrow> (r, w'))"

section \<open>Two of the domain handlers\<close>

text \<open>
  \<^verbatim>\<open>InstallationAgent\<close> (lines 1060-1118). \<^verbatim>\<open>extractPartInfo\<close> matches
  \<^verbatim>\<open>/PS\d{8}|\b\d{8}\b/i\<close>: at the leftmost position where one of the two alternatives
  matches, the first before the second. \<open>prev\<close> is the character before the position.
\<close>

definition is_digit :: "char \<Rightarrow> bool" where
  "is_digit c = (c \<in> set ''0123456789'')"

definition is_word :: "char \<Rightarrow> bool" where
  "is_word c = (c \<in> set ''abcdefghijklmnopqrstuvwxyzABCDEFGHIJKLMNOPQRSTUVWXYZ0123456789_'')"

definition eight_digits :: "string \<Rightarrow> bool" where
  "eight_digits s = (length (take 8 s) = 8 \<and> list_all is_digit (take 8 s))"

fun partMatch :: "char option \<Rightarrow> string \<Rightarrow> string option" where
  "partMatch prev [] = None"
| "partMatch prev (c # cs) =
     (if toLowerCase (take 2 (c # cs)) = ''ps'' \<and> eight_digits (drop 2 (c # cs))
        then Some (take 10 (c # cs))
      else if \<not> (case prev of None \<Rightarrow> False | Some p \<Rightarrow> is_word p) \<and> eight_digits (c # cs)
              \<and> (case drop 8 (c # cs) of [] \<Rightarrow> True | d # ds \<Rightarrow> \<not> is_word d)
        then Some (take 8 (c # cs))
      else partMatch (Some c) cs)"

definition extractPartInfo :: "string \<Rightarrow> string option" where
  "extractPartInfo query = map_option toUpperCase (partMatch None query)"

record installGuide =
  instructions :: string
  videoUrl :: string
  pdfUrl :: string
  estimatedTime :: string
  difficulty :: string
  toolsNeeded :: "string list"

definition getInstallationGuide :: "env \<Rightarrow> string \<Rightarrow> world \<Rightarrow> (error + installGuide) \<times> world" where
  "getInstallationGuide env partNo w =
     (case ai (install_call env partNo) w of
        (Inl err, w') \<Rightarrow> (Inl err, w')
      | (Inr text, w') \<Rightarrow>
          (Inr \<lparr>instructions = text,
                videoUrl = ''https://partselect.com/videos/'' @ partNo,
                pdfUrl = ''https://partselect.com/guides/'' @ partNo @ ''.pdf'',
                estimatedTime = ''30-45 minutes'',
                difficulty = ''Medium'',
                toolsNeeded = [''Phillips screwdriver'', ''Flathead screwdriver'', ''Pliers'']\<rparr>, w'))"

definition InstallationAgent_guide :: "env \<Rightarrow> handler" where
  "InstallationAgent_guide env query ctx history w =
     (case extractPartInfo query of
        None \<Rightarrow>
          (Inr \<lparr>message = ''I'd be happy to help with installation! Which part are you installing? Please provide the part number (e.g., PS11752778).'',
                products = None, actions = None\<rparr>, w)
      | Some partNo \<Rightarrow>
          (case getInstallationGuide env partNo w of
             (Inl err, w') \<Rightarrow> (Inl err, w')
           | (Inr installGuide, w') \<Rightarrow>
               (Inr \<lparr>message = instructions installGuide, products = None,
                     actions = Some [InstallationGuide (videoUrl installGuide) (pdfUrl installGuide)
                                       (estimatedTime installGuide) (difficulty installGuide)
                                       (toolsNeeded installGuide)]\<rparr>, w')))"

text \<open>
  \<^verbatim>\<open>OrderSupportAgent\<close> (lines 1122-1197). Two of its fixed messages contain characters
  outside ASCII: the bullet U+2022 and three pictographs. They stand in the literals as
  the UTF-8 bytes of the source file; no operation of the model changes or tests them.
\<close>

definition classifyOrderIntent :: "string \<Rightarrow> string" where
  "classifyOrderIntent query =
     (let lowerQuery = toLowerCase query in
      if list_ex (str_includes lowerQuery) [''track'', ''status'', ''where is'', ''shipped''] then ''track_order''
      else if list_ex (str_includes lowerQuery) [''return'', ''refund'', ''send back''] then ''return_request''
      else if list_ex (str_includes lowerQuery) [''shipping'', ''delivery'', ''how long'', ''when will''] then ''shipping_info''
      else ''general'')"

definition handleOrderTracking :: agentResponse where
  "handleOrderTracking =
     \<lparr>message = ''I can help you track your order! Please provide your order number (e.g., PS123456).'',
      products = None,
      actions = Some [InputPrompt ''order_number'' ''Enter order number'']\<rparr>"

definition bullet :: string where
  "bullet = [CHR 0xE2, CHR 0x80, CHR 0xA2]"

definition handleReturn :: agentResponse where
  "handleReturn =
     \<lparr>message = ''I understand you'd like to return an item. PartSelect offers:\<newline>\<newline>''
                 @ bullet @ '' 365-day return policy\<newline>''
                 @ bullet @ '' Free return shipping\<newline>''
                 @ bullet @ '' Full refund for unused parts\<newline>\<newline>''
                 @ ''Would you like me to start a return request? I'll need your order number.'',
      products = None,
      actions = Some [ButtonGroup [(''Start Return'', ''initiate_return''),
                                   (''Return Policy Details'', ''show_policy'')]]\<rparr>"

definition handleShippingInfo :: agentResponse where
  "handleShippingInfo =
     \<lparr>message = ''PartSelect offers:\<newline>\<newline>''
                 @ [CHR 0xF0, CHR 0x9F, CHR 0x93, CHR 0xA6]
                 @ '' **Standard Shipping:** 5-7 business days (FREE over $50)\<newline>''
                 @ [CHR 0xF0, CHR 0x9F, CHR 0x9A, CHR 0x9A]
                 @ '' **Expedited Shipping:** 2-3 business days\<newline>''
                 @ [CHR 0xE2, CHR 0x9A, CHR 0xA1]
                 @ '' **Express Shipping:** 1-2 business days\<newline>\<newline>''
                 @ ''Most orders ship within 24 hours!'',
      products = None, actions = None\<rparr>"

definition handleGeneralOrderQuery :: "env \<Rightarrow> string \<Rightarrow> turn list \<Rightarrow> world \<Rightarrow> (error + agentResponse) \<times> world" where
  "handleGeneralOrderQuery env query history w =
     (case ai (order_call env query history) w of
        (Inl err, w') \<Rightarrow> (Inl err, w')
      | (Inr r, w') \<Rightarrow> (Inr \<lparr>message = r, products = None, actions = None\<rparr>, w'))"

definition OrderSupportAgent_assist :: "env \<Rightarrow> handler" where
  "OrderSupportAgent_assist env query ctx history w =
     (let orderIntent = classifyOrderIntent query in
      if orderIntent = ''track_order'' then (Inr handleOrderTracking, w)
      else if orderIntent = ''return_request'' then (Inr handleReturn, w)
      else if orderIntent = ''shipping_info'' then (Inr handleShippingInfo, w)
      else handleGeneralOrderQuery env query history w)"

section \<open>Concrete calls and environments\<close>

text \<open>
  Calls entered at time \<open>t\<close>: one in which both providers fail, one in which the primary
  fails and the fallback answers, and one in which the primary answers.
\<close>

definition failing_call :: "int \<Rightarrow> call_env" where
  "failing_call t = \<lparr>now_entry = t, deepseek = None, now_failure = t + 1, openai = None\<rparr>"

definition rescued_call :: "int \<Rightarrow> string \<Rightarrow> call_env" where
  "rescued_call t r = \<lparr>now_entry = t, deepseek = None, now_failure = t + 1, openai = Some r\<rparr>"

definition answered_call :: "int \<Rightarrow> string \<Rightarrow> call_env" where
  "answered_call t r = \<lparr>now_entry = t, deepseek = Some r, now_failure = t + 1, openai = None\<rparr>"

text \<open>
  What holds of the breaker after \<open>n\<close> calls, made one after the other from the initial
  state, in each of which both providers failed.
\<close>

definition fail_inv :: "nat \<Rightarrow> cb \<Rightarrow> bool" where
  "fail_inv n s =
     (if n < 3 then circuitBreakerState s = CLOSED \<and> failureCount s = n
      else circuitBreakerState s = OPEN \<and> 3 \<le> failureCount s \<and> (n = 3 \<longrightarrow> failureCount s = 3))"

text \<open>
  What holds of the breaker between calls made one after the other, whatever the
  providers did: it is \<open>OPEN\<close> when the counter is 3 or more and \<open>CLOSED\<close> otherwise.
\<close>

definition boundary_inv :: "cb \<Rightarrow> bool" where
  "boundary_inv s = (circuitBreakerState s = (if failureCount s < 3 then CLOSED else OPEN))"

text \<open>
  The examples below need whole environments. \<open>echo\<close> stands in for the three handlers
  that are not modelled (product search, compatibility check and diagnosis): it answers
  with its tag and the query it was given, so that an example shows which entry point
  was called and with what. The two modelled handlers are used as they are.
\<close>

definition echo :: "string \<Rightarrow> handler" where
  "echo tag query ctx history w =
     (Inr \<lparr>message = tag @ '': '' @ query, products = None, actions = None\<rparr>, w)"

definition example_agents :: "env \<Rightarrow> agents" where
  "example_agents env =
     \<lparr>search = echo ''search'',
      check = (\<lambda>query ctx history userId. echo ''check'' query ctx history),
      diagnose = echo ''diagnose'',
      guide = InstallationAgent_guide env,
      assist = OrderSupportAgent_assist env\<rparr>"

text \<open>
  An environment in which the classification call behaves as \<open>classification\<close>, the
  response parses to \<open>parsed\<close>, every later completion call behaves as \<open>later\<close>, and
  the conversation so far is \<open>earlier\<close>, to which the route adds the user's message.
\<close>

definition example_env :: "call_env \<Rightarrow> intent option \<Rightarrow> call_env \<Rightarrow> turn list \<Rightarrow> env" where
  "example_env classification parsed later earlier =
     \<lparr>classify_call = (\<lambda>query history. classification),
      json_intent = (\<lambda>response. parsed),
      general_call = (\<lambda>query history. later),
      install_call = (\<lambda>partNo. later),
      order_call = (\<lambda>query history. later),
      conversation = (\<lambda>userId msg w. (Inr (1, earlier @ [\<lparr>role = User, content = msg\<rparr>]), w)),
      store_reply = (\<lambda>convId r. None)\<rparr>"

text \<open>A fresh process: the initial breaker, Redis reachable and empty, no provider tried.\<close>

definition world0 :: world where
  "world0 = \<lparr>breaker = cb_init, redis = Some Map.empty, provider_log = []\<rparr>"

text \<open>Histories, stored contexts and handler responses used in the examples.\<close>

definition steps_given :: "turn list" where
  "steps_given = [\<lparr>role = User, content = ''My dishwasher is leaking''\<rparr>,
                  \<lparr>role = Assistant, content = ''Step 1: Check the door gasket. Step 2: Inspect the inlet valve.''\<rparr>]"

definition awaiting_model :: sessionContext where
  "awaiting_model = empty_context\<lparr>lastPart := Some ''PS11752778'', expecting := Some ''model_number_for_compat''\<rparr>"




definition compat_history :: "turn list" where
  "compat_history =
     [\<lparr>role = User, content = ''Is PS11752778 compatible with my dishwasher?''\<rparr>,
      \<lparr>role = Assistant, content = ''Great! I have part number **PS11752778**. What's your appliance model number?''\<rparr>,
      \<lparr>role = User, content = ''WDT780SAEM1''\<rparr>]"

definition waiting_world :: world where
  "waiting_world = world0\<lparr>redis := Some [context_key ''u1'' \<mapsto> awaiting_model]\<rparr>"

definition follow_up_history :: "turn list" where
  "follow_up_history = steps_given @ [\<lparr>role = User, content = ''WDT780SAEM1''\<rparr>]"

text \<open>
  An installation question: the classification call is answered, and both providers
  fail when the installation handler asks for the instructions.
\<close>

definition install_intent :: intent where
  "install_intent = \<lparr>primary = ''installation_help'', confidence = 0.95, entities = []\<rparr>"

definition install_env :: env where
  "install_env = example_env (answered_call 0 ''{\"primary\": \"installation_help\", \"confidence\": 0.95, \"entities\": {}}'')
                   (Some install_intent) (failing_call 5) []"

definition install_question :: string where
  "install_question = ''How do I install PS11752778?''"

definition after_install_failure :: world where
  "after_install_failure =
     world0\<lparr>breaker := \<lparr>circuitBreakerState = CLOSED, failureCount = 1, lastFailureTime = 6\<rparr>,
            provider_log := [DeepSeek, DeepSeek, OpenAI]\<rparr>"

text \<open>A question that the classifier answers with \<^verbatim>\<open>out_of_scope\<close>.\<close>

definition weather_intent :: intent where
  "weather_intent = \<lparr>primary = ''out_of_scope'', confidence = 0.9, entities = []\<rparr>"

definition weather_env :: env where
  "weather_env = example_env (answered_call 0 ''{\"primary\": \"out_of_scope\", \"confidence\": 0.9, \"entities\": {}}'')
                   (Some weather_intent) (answered_call 5 ''ok'') []"

text \<open>A conversation in which troubleshooting steps were given; the primary provider answers.\<close>

definition follow_up_env :: env where
  "follow_up_env = example_env (answered_call 0 ''ok'') None (answered_call 5 ''ok'') steps_given"

section \<open>Properties of the breaker\<close>

lemma cb_step_inv: "cb_step s s' \<Longrightarrow> cb_inv s \<Longrightarrow> cb_inv s'"
  by (induction rule: cb_step.induct)
     (auto simp: cb_inv_def record_success_def record_failure_def Let_def
                 CIRCUIT_BREAKER_THRESHOLD_def)

lemma reachable_inv: "reachable s \<Longrightarrow> cb_inv s"
proof (induction rule: reachable.induct)
  case init
  show ?case by (simp add: cb_inv_def cb_init_def)
next
  case (step s s')
  then show ?case using cb_step_inv by blast
qed

lemma attempt_reachable: "reachable s \<Longrightarrow> reachable (fst (snd (attempt e s)))"
  by (auto simp: attempt_def Let_def split: option.splits
           intro: reachable.step cb_step.success cb_step.failure)

lemma callWithBreaker_reachable:
  "reachable s \<Longrightarrow> reachable (fst (snd (callWithBreaker e s)))"
proof -
  assume r: "reachable s"
  show ?thesis
  proof (cases "gate (now_entry e) s")
    case (Inl err)
    then show ?thesis using r by (simp add: callWithBreaker_def)
  next
    case (Inr s1)
    have "reachable s1"
    proof (cases "s1 = s")
      case True
      then show ?thesis using r by simp
    next
      case False
      with Inr have "circuitBreakerState s = OPEN"
        and "\<not> now_entry e - lastFailureTime s < CIRCUIT_BREAKER_RESET_TIME"
        and "s1 = s\<lparr>circuitBreakerState := HALF_OPEN\<rparr>"
        by (auto simp: gate_def Let_def split: if_splits)
      then show ?thesis using r cb_step.half_open reachable.step by metis
    qed
    then show ?thesis using Inr by (simp add: callWithBreaker_def attempt_reachable)
  qed
qed

lemma run_reachable: "reachable s \<Longrightarrow> reachable (run s es)"
  by (induction es arbitrary: s) (simp_all add: callWithBreaker_reachable)

lemmas cb_defs = callWithBreaker_def gate_def attempt_def record_failure_def record_success_def
  CIRCUIT_BREAKER_THRESHOLD_def CIRCUIT_BREAKER_RESET_TIME_def Let_def

lemma fail_step:
  "both_fail e \<Longrightarrow> fail_inv n s \<Longrightarrow> fail_inv (Suc n) (fst (snd (callWithBreaker e s)))"
  by (auto simp: fail_inv_def both_fail_def cb_defs split: if_splits)

lemma fail_run:
  "list_all both_fail es \<Longrightarrow> fail_inv n s \<Longrightarrow> fail_inv (n + length es) (run s es)"
proof (induction es arbitrary: n s)
  case Nil
  then show ?case by simp
next
  case (Cons e es)
  from Cons.prems have "fail_inv (Suc n) (fst (snd (callWithBreaker e s)))"
    by (simp add: fail_step)
  moreover from Cons.prems have "list_all both_fail es" by simp
  ultimately have "fail_inv (Suc n + length es) (run (fst (snd (callWithBreaker e s))) es)"
    by (rule Cons.IH[rotated])
  then show ?case by simp
qed

lemma fail_run_init: "list_all both_fail es \<Longrightarrow> fail_inv (length es) (run cb_init es)"
  using fail_run[of es 0 cb_init] by (simp add: fail_inv_def cb_init_def)

lemma open_fast_fail:
  "circuitBreakerState s = OPEN \<Longrightarrow> now_entry e - lastFailureTime s < CIRCUIT_BREAKER_RESET_TIME
   \<Longrightarrow> callWithBreaker e s = (Inl CircuitOpen, s, [])"
  by (simp add: cb_defs)

lemma open_half_open:
  "circuitBreakerState s = OPEN \<Longrightarrow> \<not> now_entry e - lastFailureTime s < CIRCUIT_BREAKER_RESET_TIME
   \<Longrightarrow> gate (now_entry e) s = Inr (s\<lparr>circuitBreakerState := HALF_OPEN\<rparr>)
     \<and> callWithBreaker e s = attempt e (s\<lparr>circuitBreakerState := HALF_OPEN\<rparr>)
     \<and> hd (snd (snd (callWithBreaker e s))) = DeepSeek"
  by (simp add: cb_defs split: option.splits)

lemma attempt_success:
  "deepseek e = Some r \<or> deepseek e = None \<and> openai e = Some r \<Longrightarrow>
   fst (attempt e s) = Inr r \<and> circuitBreakerState (fst (snd (attempt e s))) = CLOSED
   \<and> failureCount (fst (snd (attempt e s))) = 0"
  by (auto simp: cb_defs)

lemma boundary_step: "boundary_inv s \<Longrightarrow> boundary_inv (fst (snd (callWithBreaker e s)))"
  by (auto simp: boundary_inv_def cb_defs split: if_splits option.splits)

lemma boundary_run: "boundary_inv s \<Longrightarrow> boundary_inv (run s es)"
  by (induction es arbitrary: s) (simp_all add: boundary_step)

lemma boundary_run_init: "boundary_inv (run cb_init es)"
  by (rule boundary_run) (simp add: boundary_inv_def cb_init_def)

lemma run_snoc: "run s (es @ [e]) = fst (snd (callWithBreaker e (run s es)))"
  by (induction es arbitrary: s) simp_all

lemma closed_primary_failure:
  "circuitBreakerState s = CLOSED \<Longrightarrow> failureCount s < 3 \<Longrightarrow> deepseek e = None \<Longrightarrow>
     failureCount (record_failure (now_failure e) s) = failureCount s + 1
   \<and> (circuitBreakerState (record_failure (now_failure e) s) = OPEN \<longleftrightarrow> failureCount s + 1 = 3)
   \<and> (openai e = None \<longrightarrow>
         callWithBreaker e s = (Inl OpenAIFailed, record_failure (now_failure e) s, [DeepSeek, OpenAI]))
   \<and> (openai e = Some r \<longrightarrow>
         fst (callWithBreaker e s) = Inr r
       \<and> circuitBreakerState (fst (snd (callWithBreaker e s))) = CLOSED
       \<and> failureCount (fst (snd (callWithBreaker e s))) = 0)"
  by (auto simp: cb_defs)

text \<open>
  Claim C1, as amended. Take any sequence of calls, made one after the other from the
  initial breaker (\<open>CLOSED\<close>, counter 0), in each of which the primary provider fails,
  whatever the fallback does. After the sequence the breaker is \<open>OPEN\<close> when the counter
  is 3 or more and \<open>CLOSED\<close> otherwise (when the fallback failed in every call too, it is
  \<open>OPEN\<close> from the third call on, and up to there the counter is the number of calls).
  While it is \<open>CLOSED\<close>, the primary's failure in the next call adds one to the
  counter and sets the breaker to \<open>OPEN\<close> exactly when the counter thereby reaches 3; if
  the fallback of that call fails too, this is the breaker the call leaves behind, and
  if the fallback answers, the call leaves it \<open>CLOSED\<close> with counter 0. While it is
  \<open>OPEN\<close>, a call entered less than 30000 ms after the last recorded failure fails at
  once with the circuit-open error, tries no provider and leaves the breaker as it was; a
  call entered later finds the gate moving the breaker to \<open>HALF_OPEN\<close> and then tries the
  primary from that state; and when a provider answers that call, the text is returned,
  the breaker is \<open>CLOSED\<close> and the counter is 0.
\<close>

theorem breaker_lifecycle:
  assumes "list_all primary_fails es"
  shows "(circuitBreakerState (run cb_init es) = (if failureCount (run cb_init es) < 3 then CLOSED else OPEN))
       \<and> (list_all both_fail es \<longrightarrow>
            circuitBreakerState (run cb_init es) = (if length es < 3 then CLOSED else OPEN)
          \<and> (length es \<le> 3 \<longrightarrow> failureCount (run cb_init es) = length es))
       \<and> (circuitBreakerState (run cb_init es) = CLOSED \<and> deepseek e = None \<longrightarrow>
            failureCount (record_failure (now_failure e) (run cb_init es)) = failureCount (run cb_init es) + 1
          \<and> (circuitBreakerState (record_failure (now_failure e) (run cb_init es)) = OPEN
                \<longleftrightarrow> failureCount (run cb_init es) + 1 = 3)
          \<and> (openai e = None \<longrightarrow>
                callWithBreaker e (run cb_init es)
                  = (Inl OpenAIFailed, record_failure (now_failure e) (run cb_init es), [DeepSeek, OpenAI])
              \<and> run cb_init (es @ [e]) = record_failure (now_failure e) (run cb_init es))
          \<and> (openai e = Some r \<longrightarrow>
                fst (callWithBreaker e (run cb_init es)) = Inr r
              \<and> circuitBreakerState (run cb_init (es @ [e])) = CLOSED
              \<and> failureCount (run cb_init (es @ [e])) = 0))
       \<and> (circuitBreakerState (run cb_init es) = OPEN
            \<and> now_entry e - lastFailureTime (run cb_init es) < CIRCUIT_BREAKER_RESET_TIME
            \<longrightarrow> callWithBreaker e (run cb_init es) = (Inl CircuitOpen, run cb_init es, []))
       \<and> (circuitBreakerState (run cb_init es) = OPEN
            \<and> \<not> now_entry e - lastFailureTime (run cb_init es) < CIRCUIT_BREAKER_RESET_TIME
            \<longrightarrow> gate (now_entry e) (run cb_init es) = Inr ((run cb_init es)\<lparr>circuitBreakerState := HALF_OPEN\<rparr>)
              \<and> callWithBreaker e (run cb_init es) = attempt e ((run cb_init es)\<lparr>circuitBreakerState := HALF_OPEN\<rparr>)
              \<and> hd (snd (snd (callWithBreaker e (run cb_init es)))) = DeepSeek
              \<and> (deepseek e = Some r \<or> deepseek e = None \<and> openai e = Some r
                   \<longrightarrow> fst (callWithBreaker e (run cb_init es)) = Inr r
                     \<and> circuitBreakerState (fst (snd (callWithBreaker e (run cb_init es)))) = CLOSED
                     \<and> failureCount (fst (snd (callWithBreaker e (run cb_init es)))) = 0))"
proof -
  let ?s = "run cb_init es"
  have a: "circuitBreakerState ?s = (if failureCount ?s < 3 then CLOSED else OPEN)"
    using boundary_run_init[of es] by (simp add: boundary_inv_def)
  have b: "list_all both_fail es \<longrightarrow>
            circuitBreakerState ?s = (if length es < 3 then CLOSED else OPEN)
          \<and> (length es \<le> 3 \<longrightarrow> failureCount ?s = length es)"
  proof
    assume "list_all both_fail es"
    then have "fail_inv (length es) ?s" by (rule fail_run_init)
    then show "circuitBreakerState ?s = (if length es < 3 then CLOSED else OPEN)
          \<and> (length es \<le> 3 \<longrightarrow> failureCount ?s = length es)"
      by (auto simp: fail_inv_def split: if_splits)
  qed
  have c: "circuitBreakerState ?s = CLOSED \<and> deepseek e = None \<longrightarrow>
            failureCount (record_failure (now_failure e) ?s) = failureCount ?s + 1
          \<and> (circuitBreakerState (record_failure (now_failure e) ?s) = OPEN
                \<longleftrightarrow> failureCount ?s + 1 = 3)
          \<and> (openai e = None \<longrightarrow>
                callWithBreaker e ?s = (Inl OpenAIFailed, record_failure (now_failure e) ?s, [DeepSeek, OpenAI])
              \<and> run cb_init (es @ [e]) = record_failure (now_failure e) ?s)
          \<and> (openai e = Some r \<longrightarrow>
                fst (callWithBreaker e ?s) = Inr r
              \<and> circuitBreakerState (run cb_init (es @ [e])) = CLOSED
              \<and> failureCount (run cb_init (es @ [e])) = 0)"
  proof (intro impI, elim conjE)
    assume cl: "circuitBreakerState ?s = CLOSED" and pf: "deepseek e = None"
    have lt: "failureCount ?s < 3" using a cl by (auto split: if_splits)
    show "failureCount (record_failure (now_failure e) ?s) = failureCount ?s + 1
          \<and> (circuitBreakerState (record_failure (now_failure e) ?s) = OPEN
                \<longleftrightarrow> failureCount ?s + 1 = 3)
          \<and> (openai e = None \<longrightarrow>
                callWithBreaker e ?s = (Inl OpenAIFailed, record_failure (now_failure e) ?s, [DeepSeek, OpenAI])
              \<and> run cb_init (es @ [e]) = record_failure (now_failure e) ?s)
          \<and> (openai e = Some r \<longrightarrow>
                fst (callWithBreaker e ?s) = Inr r
              \<and> circuitBreakerState (run cb_init (es @ [e])) = CLOSED
              \<and> failureCount (run cb_init (es @ [e])) = 0)"
      using closed_primary_failure[OF cl lt pf, of r] by (simp add: run_snoc)
  qed
  have d: "circuitBreakerState ?s = OPEN
            \<and> now_entry e - lastFailureTime ?s < CIRCUIT_BREAKER_RESET_TIME
            \<longrightarrow> callWithBreaker e ?s = (Inl CircuitOpen, ?s, [])"
    using open_fast_fail by blast
  have f: "circuitBreakerState ?s = OPEN
            \<and> \<not> now_entry e - lastFailureTime ?s < CIRCUIT_BREAKER_RESET_TIME
            \<longrightarrow> gate (now_entry e) ?s = Inr (?s\<lparr>circuitBreakerState := HALF_OPEN\<rparr>)
              \<and> callWithBreaker e ?s = attempt e (?s\<lparr>circuitBreakerState := HALF_OPEN\<rparr>)
              \<and> hd (snd (snd (callWithBreaker e ?s))) = DeepSeek
              \<and> (deepseek e = Some r \<or> deepseek e = None \<and> openai e = Some r
                   \<longrightarrow> fst (callWithBreaker e ?s) = Inr r
                     \<and> circuitBreakerState (fst (snd (callWithBreaker e ?s))) = CLOSED
                     \<and> failureCount (fst (snd (callWithBreaker e ?s))) = 0)"
  proof (intro impI, elim conjE)
    assume op: "circuitBreakerState ?s = OPEN"
      and t: "\<not> now_entry e - lastFailureTime ?s < CIRCUIT_BREAKER_RESET_TIME"
    have h: "gate (now_entry e) ?s = Inr (?s\<lparr>circuitBreakerState := HALF_OPEN\<rparr>)
       \<and> callWithBreaker e ?s = attempt e (?s\<lparr>circuitBreakerState := HALF_OPEN\<rparr>)
       \<and> hd (snd (snd (callWithBreaker e ?s))) = DeepSeek"
      using open_half_open[OF op t] .
    then show "gate (now_entry e) ?s = Inr (?s\<lparr>circuitBreakerState := HALF_OPEN\<rparr>)
              \<and> callWithBreaker e ?s = attempt e (?s\<lparr>circuitBreakerState := HALF_OPEN\<rparr>)
              \<and> hd (snd (snd (callWithBreaker e ?s))) = DeepSeek
              \<and> (deepseek e = Some r \<or> deepseek e = None \<and> openai e = Some r
                   \<longrightarrow> fst (callWithBreaker e ?s) = Inr r
                     \<and> circuitBreakerState (fst (snd (callWithBreaker e ?s))) = CLOSED
                     \<and> failureCount (fst (snd (callWithBreaker e ?s))) = 0)"
      using attempt_success[of e r "?s\<lparr>circuitBreakerState := HALF_OPEN\<rparr>"] by auto
  qed
  show ?thesis using a b c d f by blast
qed

lemma run3: "run cb_init [failing_call 0, failing_call 10, failing_call 20]
   = \<lparr>circuitBreakerState = OPEN, failureCount = 3, lastFailureTime = 21\<rparr>"
  by (simp add: failing_call_def cb_init_def cb_defs)

lemma run_rescued3: "run cb_init [rescued_call 0 ''ok'', failing_call 10, failing_call 20]
   = \<lparr>circuitBreakerState = CLOSED, failureCount = 2, lastFailureTime = 21\<rparr>"
  by (simp add: failing_call_def rescued_call_def cb_init_def cb_defs)

lemma run_rescued4: "run cb_init [rescued_call 0 ''ok'', failing_call 10, failing_call 20, failing_call 30]
   = \<lparr>circuitBreakerState = OPEN, failureCount = 3, lastFailureTime = 31\<rparr>"
  by (simp add: failing_call_def rescued_call_def cb_init_def cb_defs)

theorem breaker_lifecycle_witness:
  "list_all primary_fails [rescued_call 0 ''ok'', failing_call 10, failing_call 20, failing_call 30]
   \<and> run cb_init [rescued_call 0 ''ok'', failing_call 10, failing_call 20]
       = \<lparr>circuitBreakerState = CLOSED, failureCount = 2, lastFailureTime = 21\<rparr>
   \<and> callWithBreaker (failing_call 30) \<lparr>circuitBreakerState = CLOSED, failureCount = 2, lastFailureTime = 21\<rparr>
       = (Inl OpenAIFailed, \<lparr>circuitBreakerState = OPEN, failureCount = 3, lastFailureTime = 31\<rparr>, [DeepSeek, OpenAI])
   \<and> run cb_init [rescued_call 0 ''ok'', failing_call 10, failing_call 20, failing_call 30]
       = \<lparr>circuitBreakerState = OPEN, failureCount = 3, lastFailureTime = 31\<rparr>
   \<and> callWithBreaker (answered_call 30030 ''ok'') \<lparr>circuitBreakerState = OPEN, failureCount = 3, lastFailureTime = 31\<rparr>
       = (Inl CircuitOpen, \<lparr>circuitBreakerState = OPEN, failureCount = 3, lastFailureTime = 31\<rparr>, [])
   \<and> gate 30031 \<lparr>circuitBreakerState = OPEN, failureCount = 3, lastFailureTime = 31\<rparr>
       = Inr \<lparr>circuitBreakerState = HALF_OPEN, failureCount = 3, lastFailureTime = 31\<rparr>
   \<and> fst (snd (callWithBreaker (answered_call 30031 ''ok'') \<lparr>circuitBreakerState = OPEN, failureCount = 3, lastFailureTime = 31\<rparr>))
       = \<lparr>circuitBreakerState = CLOSED, failureCount = 0, lastFailureTime = 31\<rparr>
   \<and> list_all both_fail [failing_call 0, failing_call 10, failing_call 20]
   \<and> run cb_init [failing_call 0, failing_call 10, failing_call 20]
       = \<lparr>circuitBreakerState = OPEN, failureCount = 3, lastFailureTime = 21\<rparr>"
proof -
  let ?es3 = "[rescued_call 0 ''ok'', failing_call 10, failing_call 20]"
  let ?es4 = "[rescued_call 0 ''ok'', failing_call 10, failing_call 20, failing_call 30]"
  let ?fs = "[failing_call 0, failing_call 10, failing_call 20]"
  have h3: "list_all primary_fails ?es3"
    by (simp add: primary_fails_def failing_call_def rescued_call_def)
  have h4: "list_all primary_fails ?es4"
    by (simp add: primary_fails_def failing_call_def rescued_call_def)
  have hf: "list_all primary_fails ?fs" by (simp add: primary_fails_def failing_call_def)
  have bf: "list_all both_fail ?fs" by (simp add: both_fail_def failing_call_def)
  have e34: "?es3 @ [failing_call 30] = ?es4" by simp
  have cl: "circuitBreakerState (run cb_init ?es3) = CLOSED" unfolding run_rescued3 by simp
  have pf: "deepseek (failing_call 30) = None" and ff: "openai (failing_call 30) = None"
    by (simp_all add: failing_call_def)
  have op: "circuitBreakerState (run cb_init ?es4) = OPEN" unfolding run_rescued4 by simp
  have early: "now_entry (answered_call 30030 ''ok'') - lastFailureTime (run cb_init ?es4) < CIRCUIT_BREAKER_RESET_TIME"
    unfolding run_rescued4 by (simp add: answered_call_def CIRCUIT_BREAKER_RESET_TIME_def)
  have late: "\<not> now_entry (answered_call 30031 ''ok'') - lastFailureTime (run cb_init ?es4) < CIRCUIT_BREAKER_RESET_TIME"
    unfolding run_rescued4 by (simp add: answered_call_def CIRCUIT_BREAKER_RESET_TIME_def)
  have ok: "deepseek (answered_call 30031 ''ok'') = Some ''ok''" by (simp add: answered_call_def)
  note t0 = breaker_lifecycle[OF h3, of "failing_call 30" "''ok''"]
  note t1 = breaker_lifecycle[OF h4, of "answered_call 30030 ''ok''" "''ok''"]
  note t2 = breaker_lifecycle[OF h4, of "answered_call 30031 ''ok''" "''ok''"]
  note t3 = breaker_lifecycle[OF hf, of "failing_call 30" "''ok''"]
  have o: "callWithBreaker (failing_call 30) (run cb_init ?es3)
       = (Inl OpenAIFailed, record_failure (now_failure (failing_call 30)) (run cb_init ?es3), [DeepSeek, OpenAI])"
    using t0 cl pf ff by blast
  have x1: "callWithBreaker (answered_call 30030 ''ok'') (run cb_init ?es4) = (Inl CircuitOpen, run cb_init ?es4, [])"
    using t1 op early by blast
  have x2: "gate (now_entry (answered_call 30031 ''ok'')) (run cb_init ?es4)
              = Inr ((run cb_init ?es4)\<lparr>circuitBreakerState := HALF_OPEN\<rparr>)
          \<and> circuitBreakerState (fst (snd (callWithBreaker (answered_call 30031 ''ok'') (run cb_init ?es4)))) = CLOSED
          \<and> failureCount (fst (snd (callWithBreaker (answered_call 30031 ''ok'') (run cb_init ?es4)))) = 0"
    using t2 op late ok by blast
  have x3: "circuitBreakerState (run cb_init ?fs) = OPEN \<and> failureCount (run cb_init ?fs) = 3"
    using t3 bf by simp
  show ?thesis
    using h4 bf o x1 x2 x3 unfolding run_rescued3 run_rescued4 run3
    by (simp add: answered_call_def failing_call_def cb_defs)
qed

text \<open>
  The claim as the specification words it quantifies over the calls in which the primary
  fails, whatever the fallback does. In the four calls below the primary fails each time.
  The third call brings the counter from 2 to 3 and opens the breaker, but its fallback
  answers, which closes the breaker and resets the counter within the same call; the
  fourth call, entered 9 ms after the last recorded failure, is not failed fast: both
  providers are tried.
\<close>

theorem breaker_lifecycle_counterexample:
  "map deepseek [failing_call 0, failing_call 10, rescued_call 20 ''ok'', failing_call 30] = [None, None, None, None]
   \<and> failureCount (run cb_init [failing_call 0, failing_call 10]) = 2
   \<and> record_failure 21 (run cb_init [failing_call 0, failing_call 10])
       = \<lparr>circuitBreakerState = OPEN, failureCount = 3, lastFailureTime = 21\<rparr>
   \<and> run cb_init [failing_call 0, failing_call 10, rescued_call 20 ''ok'']
       = \<lparr>circuitBreakerState = CLOSED, failureCount = 0, lastFailureTime = 21\<rparr>
   \<and> now_entry (failing_call 30) - 21 < CIRCUIT_BREAKER_RESET_TIME
   \<and> callWithBreaker (failing_call 30) (run cb_init [failing_call 0, failing_call 10, rescued_call 20 ''ok''])
       = (Inl OpenAIFailed, \<lparr>circuitBreakerState = CLOSED, failureCount = 1, lastFailureTime = 31\<rparr>, [DeepSeek, OpenAI])"
  by (simp add: failing_call_def rescued_call_def cb_init_def cb_defs)

text \<open>
  Claim C10. In every state that the breaker can reach from \<open>CLOSED\<close> with counter 0,
  by whole calls or by the atomic steps of overlapping calls: if the state is \<open>OPEN\<close> or
  \<open>HALF_OPEN\<close> then the counter is at least the threshold 3; the counter is 0 only when
  the state is \<open>CLOSED\<close>, and a step that leaves the counter at 0 leaves the state
  \<open>CLOSED\<close>; and every further sequence of calls leads to a reachable state again.
\<close>

theorem breaker_invariant:
  assumes "reachable s"
  shows "(circuitBreakerState s = OPEN \<or> circuitBreakerState s = HALF_OPEN
            \<longrightarrow> CIRCUIT_BREAKER_THRESHOLD \<le> failureCount s)
       \<and> (failureCount s = 0 \<longrightarrow> circuitBreakerState s = CLOSED)
       \<and> (cb_step s s' \<and> failureCount s' = 0 \<longrightarrow> circuitBreakerState s' = CLOSED)
       \<and> reachable (run s es)"
proof -
  have "cb_inv s" using assms by (rule reachable_inv)
  moreover have "cb_step s s' \<Longrightarrow> cb_inv s'"
    using assms reachable.step reachable_inv by blast
  moreover have "reachable (run s es)" using assms by (rule run_reachable)
  ultimately show ?thesis by (auto simp: cb_inv_def)
qed

theorem breaker_invariant_witness:
  "reachable \<lparr>circuitBreakerState = HALF_OPEN, failureCount = 3, lastFailureTime = 21\<rparr>
   \<and> CIRCUIT_BREAKER_THRESHOLD \<le> failureCount \<lparr>circuitBreakerState = HALF_OPEN, failureCount = 3, lastFailureTime = 21\<rparr>
   \<and> cb_step \<lparr>circuitBreakerState = HALF_OPEN, failureCount = 3, lastFailureTime = 21\<rparr>
             \<lparr>circuitBreakerState = CLOSED, failureCount = 0, lastFailureTime = 21\<rparr>
   \<and> reachable (run \<lparr>circuitBreakerState = HALF_OPEN, failureCount = 3, lastFailureTime = 21\<rparr> [answered_call 30021 ''ok''])"
proof -
  let ?o = "\<lparr>circuitBreakerState = OPEN, failureCount = 3, lastFailureTime = 21\<rparr>"
  let ?h = "\<lparr>circuitBreakerState = HALF_OPEN, failureCount = 3, lastFailureTime = 21\<rparr>"
  have "reachable (run cb_init [failing_call 0, failing_call 10, failing_call 20])"
    using run_reachable reachable.init by blast
  then have ro: "reachable ?o" unfolding run3 .
  have "cb_step ?o (?o\<lparr>circuitBreakerState := HALF_OPEN\<rparr>)"
    by (rule cb_step.half_open[where now = 30021]) (simp_all add: CIRCUIT_BREAKER_RESET_TIME_def)
  then have st: "cb_step ?o ?h" by simp
  have rh: "reachable ?h" using ro st by (rule reachable.step)
  have sc: "cb_step ?h \<lparr>circuitBreakerState = CLOSED, failureCount = 0, lastFailureTime = 21\<rparr>"
    using cb_step.success[of ?h] by (simp add: record_success_def)
  show ?thesis
    using rh sc breaker_invariant[OF rh, of "\<lparr>circuitBreakerState = CLOSED, failureCount = 0, lastFailureTime = 21\<rparr>" "[answered_call 30021 ''ok'']"]
    by simp
qed


section \<open>Properties of classification\<close>

lemmas str_defs = toLowerCase_def lower_char_def toUpperCase_def upper_char_def trim_def is_space_def
  questioning_def slice_last_def

lemma find_skip: "\<forall>t\<in>set xs. \<not> P t \<Longrightarrow> find P (xs @ ys) = find P ys"
  by (induction xs) simp_all

lemma lastAssistantOf_split:
  "role h = Assistant \<Longrightarrow> \<forall>t\<in>set after. role t \<noteq> Assistant
   \<Longrightarrow> lastAssistantOf (before @ [h] @ after) = Some h"
  by (simp add: lastAssistantOf_def find_skip)

lemma str_includes_nonempty: "str_includes s p \<Longrightarrow> p \<noteq> [] \<Longrightarrow> s \<noteq> []"
  by (cases s) auto


lemma questioning_prefix:
  "p \<in> set [''should'', ''would'', ''do i'', ''can i'', ''is it'', ''what if'']
   \<Longrightarrow> prefix p (toLowerCase s) \<Longrightarrow> questioning s"
  unfolding questioning_def list_ex_iff by blast

text \<open>
  Claim C6, as amended. Whenever the trimmed utterance starts, in any letter case, with
  one of "should", "would", "do i", "can i", "is it", "what if", and the most recent
  assistant turn of the history contains "step" or "troubleshoot" in any letter case,
  \<^verbatim>\<open>classify\<close> returns \<^verbatim>\<open>general_question\<close> with confidence 0.85 and the entities
  \<^verbatim>\<open>isFollowUp: true\<close> and \<^verbatim>\<open>context: 'troubleshooting'\<close>, and it leaves the world as it
  was: no provider is tried and the breaker is not touched.
\<close>

theorem follow_up_fast_path:
  assumes p: "p \<in> set [''should'', ''would'', ''do i'', ''can i'', ''is it'', ''what if'']"
      and q: "prefix p (toLowerCase (trim query))"
      and h: "history = before @ [h] @ after" "role h = Assistant" "\<forall>t\<in>set after. role t \<noteq> Assistant"
      and s: "str_includes (toLowerCase (content h)) ''step'' \<or> str_includes (toLowerCase (content h)) ''troubleshoot''"
  shows "classify env query history w =
           (Inr \<lparr>primary = ''general_question'', confidence = 0.85,
                 entities = [(''isFollowUp'', EBool True), (''context'', EStr ''troubleshooting'')]\<rparr>, w)
       \<and> isFollowUp (projr (fst (classify env query history w)))
       \<and> provider_log (snd (classify env query history w)) = provider_log w"
proof -
  have la: "lastAssistantOf history = Some h"
    using h lastAssistantOf_split[of h after before] by simp
  have "toLowerCase (content h) \<noteq> []" using s str_includes_nonempty by fastforce
  then have ne: "content h \<noteq> []" by (auto simp: toLowerCase_def)
  have "followUpAfterTroubleshooting query history"
    using questioning_prefix[OF p q] la ne s by (simp add: followUpAfterTroubleshooting_def)
  then have "classify env query history w = (Inr followUpIntent, w)" by (simp add: classify_def)
  then show ?thesis by (simp add: followUpIntent_def isFollowUp_def)
qed

text \<open>The specification's example: "Should I call a technician?" after "Step 1: ...".\<close>

theorem follow_up_fast_path_witness:
  "classify (example_env (failing_call 0) None (failing_call 0) []) ''Should I call a technician?'' steps_given world0
     = (Inr \<lparr>primary = ''general_question'', confidence = 0.85,
             entities = [(''isFollowUp'', EBool True), (''context'', EStr ''troubleshooting'')]\<rparr>, world0)"
proof -
  have p: "''should'' \<in> set [''should'', ''would'', ''do i'', ''can i'', ''is it'', ''what if'']" by simp
  have q: "prefix ''should'' (toLowerCase (trim ''Should I call a technician?''))"
    by (simp add: str_defs)
  have h: "steps_given = [\<lparr>role = User, content = ''My dishwasher is leaking''\<rparr>]
       @ [\<lparr>role = Assistant, content = ''Step 1: Check the door gasket. Step 2: Inspect the inlet valve.''\<rparr>] @ []"
    by (simp add: steps_given_def)
  have r: "role \<lparr>role = Assistant, content = ''Step 1: Check the door gasket. Step 2: Inspect the inlet valve.''\<rparr> = Assistant"
    by simp
  have a: "\<forall>t\<in>set ([]::turn list). role t \<noteq> Assistant" by simp
  have s: "str_includes (toLowerCase (content \<lparr>role = Assistant, content = ''Step 1: Check the door gasket. Step 2: Inspect the inlet valve.''\<rparr>)) ''step''
         \<or> str_includes (toLowerCase (content \<lparr>role = Assistant, content = ''Step 1: Check the door gasket. Step 2: Inspect the inlet valve.''\<rparr>)) ''troubleshoot''"
    by (simp add: str_defs)
  show ?thesis using follow_up_fast_path[OF p q h r a s] by simp
qed

text \<open>
  The claim lists "what about" among the forms of the questioning pattern. The pattern
  \<^verbatim>\<open>questioning\<close> does not contain it (it stands in \<^verbatim>\<open>affirmative\<close>, which is never
  tested): after the same troubleshooting steps, "What about the water filter?" is sent to
  the provider, and the answer is whatever the provider's response parses to.
\<close>

theorem follow_up_fast_path_counterexample:
  "prefix ''what about'' (toLowerCase (trim ''What about the water filter?''))
   \<and> lastAssistantOf steps_given
       = Some \<lparr>role = Assistant, content = ''Step 1: Check the door gasket. Step 2: Inspect the inlet valve.''\<rparr>
   \<and> str_includes (toLowerCase ''Step 1: Check the door gasket. Step 2: Inspect the inlet valve.'') ''step''
   \<and> classify (example_env (answered_call 0 ''{\"primary\": \"product_search\", \"confidence\": 0.9, \"entities\": {}}'')
                   (Some \<lparr>primary = ''product_search'', confidence = 0.9, entities = []\<rparr>) (failing_call 0) [])
        ''What about the water filter?'' steps_given world0
       = (Inr \<lparr>primary = ''product_search'', confidence = 0.9, entities = []\<rparr>,
          world0\<lparr>provider_log := [DeepSeek]\<rparr>)"
  by (simp add: str_defs steps_given_def lastAssistantOf_def classify_def followUpAfterTroubleshooting_def
        classifyWithProvider_def ai_def example_env_def answered_call_def world0_def cb_init_def cb_defs)

text \<open>
  Claim C5. For every utterance, history and world: when the completion call made for
  the classification prompt returns a response and \<^verbatim>\<open>JSON.parse\<close> throws on it,
  \<^verbatim>\<open>classify\<close> does not raise. Where the prompt is sent (the follow-up test of lines
  322-338 fails) it returns \<^verbatim>\<open>{primary: 'general_question', confidence: 0.5, entities: {}}\<close>;
  where that test succeeds no prompt is sent and the follow-up intent is returned.
\<close>

theorem classify_parse_failure:
  assumes r: "ai (classify_call env query history) w = (Inr response, w')"
      and b: "json_intent env response = None"
  shows "(\<not> followUpAfterTroubleshooting query history \<longrightarrow>
            classify env query history w
              = (Inr \<lparr>primary = ''general_question'', confidence = 0.5, entities = []\<rparr>, w'))
       \<and> (followUpAfterTroubleshooting query history \<longrightarrow>
            classify env query history w = (Inr followUpIntent, w))"
  using r b by (simp add: classify_def classifyWithProvider_def fallbackIntent_def)

theorem classify_parse_failure_witness:
  "ai (classify_call (example_env (answered_call 0 ''Sure! This looks like a product search.'') None (failing_call 0) [])
         ''I need a door bin'' []) world0
     = (Inr ''Sure! This looks like a product search.'', world0\<lparr>provider_log := [DeepSeek]\<rparr>)
   \<and> json_intent (example_env (answered_call 0 ''Sure! This looks like a product search.'') None (failing_call 0) [])
         ''Sure! This looks like a product search.'' = None
   \<and> \<not> followUpAfterTroubleshooting ''I need a door bin'' []
   \<and> classify (example_env (answered_call 0 ''Sure! This looks like a product search.'') None (failing_call 0) [])
         ''I need a door bin'' [] world0
     = (Inr \<lparr>primary = ''general_question'', confidence = 0.5, entities = []\<rparr>, world0\<lparr>provider_log := [DeepSeek]\<rparr>)"
proof -
  let ?env = "example_env (answered_call 0 ''Sure! This looks like a product search.'') None (failing_call 0) []"
  have r: "ai (classify_call ?env ''I need a door bin'' []) world0
     = (Inr ''Sure! This looks like a product search.'', world0\<lparr>provider_log := [DeepSeek]\<rparr>)"
    by (simp add: ai_def example_env_def answered_call_def world0_def cb_init_def cb_defs)
  have b: "json_intent ?env ''Sure! This looks like a product search.'' = None"
    by (simp add: example_env_def)
  have n: "\<not> followUpAfterTroubleshooting ''I need a door bin'' []"
    by (simp add: followUpAfterTroubleshooting_def str_defs)
  show ?thesis using classify_parse_failure[OF r b] r b n by simp
qed

section \<open>Properties of response formatting\<close>







text \<open>
  None of the modelled handlers builds a completion offer; in the source the only place
  that writes the type \<^verbatim>\<open>conversation_completion\<close> is \<^verbatim>\<open>formatResponse\<close>.
\<close>

lemma guide_builds_no_offer:
  "InstallationAgent_guide env query ctx history w = (Inr r, w')
   \<Longrightarrow> ''conversation_completion'' \<notin> set (map action_type (case actions r of None \<Rightarrow> [] | Some xs \<Rightarrow> xs))"
  by (auto simp: InstallationAgent_guide_def getInstallationGuide_def
           split: option.splits sum.splits prod.splits)

lemma assist_builds_no_offer:
  "OrderSupportAgent_assist env query ctx history w = (Inr r, w')
   \<Longrightarrow> ''conversation_completion'' \<notin> set (map action_type (case actions r of None \<Rightarrow> [] | Some xs \<Rightarrow> xs))"
  by (auto simp: OrderSupportAgent_assist_def handleGeneralOrderQuery_def handleOrderTracking_def
                 handleReturn_def handleShippingInfo_def Let_def
           split: option.splits sum.splits prod.splits if_splits)

lemma general_builds_no_offer:
  "handleGeneralQuery env query history w = (Inr r, w')
   \<Longrightarrow> ''conversation_completion'' \<notin> set (map action_type (case actions r of None \<Rightarrow> [] | Some xs \<Rightarrow> xs))"
  by (auto simp: handleGeneralQuery_def split: option.splits sum.splits prod.splits)

section \<open>Properties of routing\<close>

lemma effective_query: "trim (''PS11752778'' @ '' '' @ ''WDT780SAEM1'') = ''PS11752778 WDT780SAEM1''"
  by (simp add: trim_def is_space_def)

text \<open>
  Claim C4, as amended. Let Redis be reachable and hold for the user a context whose
  \<^verbatim>\<open>expecting\<close> is \<^verbatim>\<open>model_number_for_compat\<close> and whose \<^verbatim>\<open>lastPart\<close> is "PS11752778", and
  let the follow-up rule of lines 170-173 not apply (the intent has no truthy
  \<^verbatim>\<open>isFollowUp\<close>, or the topic inferred from the history is not troubleshooting). Then,
  whatever the classified intent, routing the utterance "WDT780SAEM1" calls the
  compatibility handler with the query "PS11752778 WDT780SAEM1" and the context with
  \<^verbatim>\<open>expecting\<close> cleared, in a world whose stored context has \<^verbatim>\<open>expecting\<close> cleared already;
  the intent that goes on to the response metadata has \<^verbatim>\<open>primary\<close> set to
  \<^verbatim>\<open>compatibility_check\<close>; and \<^verbatim>\<open>processQuery\<close> formats what this routing returns.
\<close>

theorem compatibility_continuation:
  assumes st: "redis w = Some st" "st (context_key userId) = Some ctx"
      and ex: "expecting ctx = Some ''model_number_for_compat''"
      and lp: "lastPart ctx = Some ''PS11752778''"
      and nf: "\<not> (isFollowUp i \<and> topic (getConversationContext history) = Some ''troubleshooting'')"
  shows "routeToAgents env ag i ''WDT780SAEM1'' userId history w
           = persistAndReturn userId (ctx\<lparr>expecting := None\<rparr>) (i\<lparr>primary := ''compatibility_check''\<rparr>)
               (getConversationContext history)
               (check ag ''PS11752778 WDT780SAEM1'' (ctx\<lparr>expecting := None\<rparr>) history userId
                  (w\<lparr>redis := Some (st(context_key userId \<mapsto> ctx\<lparr>expecting := None\<rparr>))\<rparr>))
       \<and> getUserContext userId (w\<lparr>redis := Some (st(context_key userId \<mapsto> ctx\<lparr>expecting := None\<rparr>))\<rparr>)
           = Inr (ctx\<lparr>expecting := None\<rparr>)
       \<and> (classify env ''WDT780SAEM1'' history w0 = (Inr i, w) \<longrightarrow>
            processQuery env ag userId ''WDT780SAEM1'' history w0
              = (case routeToAgents env ag i ''WDT780SAEM1'' userId history w of
                   (Inl err, w2) \<Rightarrow> (Inl err, w2)
                 | (Inr (r, i'), w2) \<Rightarrow> (Inr (formatResponse r i'), w2)))"
proof -
  have g: "getUserContext userId w = Inr ctx" using st by (simp add: getUserContext_def)
  have k: "continueCompatibilityFlow i ''WDT780SAEM1'' userId ctx w
        = (Inr (i\<lparr>primary := ''compatibility_check''\<rparr>, ''PS11752778 WDT780SAEM1'', ctx\<lparr>expecting := None\<rparr>),
           w\<lparr>redis := Some (st(context_key userId \<mapsto> ctx\<lparr>expecting := None\<rparr>))\<rparr>)"
    using st ex lp effective_query
    by (simp add: continueCompatibilityFlow_def setUserContext_def Let_def)
  have a: "routeToAgents env ag i ''WDT780SAEM1'' userId history w
           = persistAndReturn userId (ctx\<lparr>expecting := None\<rparr>) (i\<lparr>primary := ''compatibility_check''\<rparr>)
               (getConversationContext history)
               (check ag ''PS11752778 WDT780SAEM1'' (ctx\<lparr>expecting := None\<rparr>) history userId
                  (w\<lparr>redis := Some (st(context_key userId \<mapsto> ctx\<lparr>expecting := None\<rparr>))\<rparr>))"
    using nf by (auto simp: routeToAgents_def g k Let_def dispatch_def)
  have b: "getUserContext userId (w\<lparr>redis := Some (st(context_key userId \<mapsto> ctx\<lparr>expecting := None\<rparr>))\<rparr>)
           = Inr (ctx\<lparr>expecting := None\<rparr>)"
    by (simp add: getUserContext_def)
  have c: "classify env ''WDT780SAEM1'' history w0 = (Inr i, w) \<longrightarrow>
            processQuery env ag userId ''WDT780SAEM1'' history w0
              = (case routeToAgents env ag i ''WDT780SAEM1'' userId history w of
                   (Inl err, w2) \<Rightarrow> (Inl err, w2)
                 | (Inr (r, i'), w2) \<Rightarrow> (Inr (formatResponse r i'), w2))"
    by (simp add: processQuery_def)
  show ?thesis using a b c by blast
qed

lemmas world_defs = world0_def cb_init_def example_env_def example_agents_def echo_def
  failing_call_def answered_call_def rescued_call_def ai_def cb_defs

lemma compat_topic: "topic (getConversationContext compat_history) = Some ''compatibility''"
  by (simp add: getConversationContext_def compat_history_def lastAssistantOf_def str_defs)

text \<open>
  The stored context of the claim, an intent classified as \<^verbatim>\<open>product_search\<close>, and the
  stand-in compatibility handler, which reports the query it received.
\<close>

theorem compatibility_continuation_witness:
  "redis waiting_world = Some [context_key ''u1'' \<mapsto> awaiting_model]
   \<and> expecting awaiting_model = Some ''model_number_for_compat''
   \<and> lastPart awaiting_model = Some ''PS11752778''
   \<and> routeToAgents (example_env (failing_call 0) None (failing_call 0) [])
        (example_agents (example_env (failing_call 0) None (failing_call 0) []))
        \<lparr>primary = ''product_search'', confidence = 0.9, entities = []\<rparr> ''WDT780SAEM1'' ''u1'' compat_history waiting_world
     = (Inr (\<lparr>message = ''check: PS11752778 WDT780SAEM1'', products = None, actions = None\<rparr>,
             \<lparr>primary = ''compatibility_check'', confidence = 0.9, entities = []\<rparr>),
        world0\<lparr>redis := Some [context_key ''u1'' \<mapsto>
           awaiting_model\<lparr>expecting := None, lastIntent := Some ''compatibility_check'',
                          lastTopic := Some ''compatibility''\<rparr>]\<rparr>)"
proof -
  let ?env = "example_env (failing_call 0) None (failing_call 0) []"
  let ?i = "\<lparr>primary = ''product_search'', confidence = 0.9, entities = []\<rparr>"
  have st: "redis waiting_world = Some [context_key ''u1'' \<mapsto> awaiting_model]"
    by (simp add: waiting_world_def)
  have lk: "[context_key ''u1'' \<mapsto> awaiting_model] (context_key ''u1'') = Some awaiting_model"
    by simp
  have ex: "expecting awaiting_model = Some ''model_number_for_compat''"
    by (simp add: awaiting_model_def empty_context_def)
  have lp: "lastPart awaiting_model = Some ''PS11752778''"
    by (simp add: awaiting_model_def empty_context_def)
  have nf: "\<not> (isFollowUp ?i \<and> topic (getConversationContext compat_history) = Some ''troubleshooting'')"
    by (simp add: isFollowUp_def)
  note t = compatibility_continuation[OF st lk ex lp nf, of ?env "example_agents ?env" world0,
             THEN conjunct1]
  have e: "[context_key ''u1'' \<mapsto> awaiting_model, context_key ''u1'' \<mapsto> awaiting_model\<lparr>expecting := None\<rparr>,
            context_key ''u1'' \<mapsto> awaiting_model\<lparr>expecting := None,
               lastIntent := Some ''compatibility_check'', lastTopic := Some ''compatibility''\<rparr>]
         = [context_key ''u1'' \<mapsto> awaiting_model\<lparr>expecting := None,
               lastIntent := Some ''compatibility_check'', lastTopic := Some ''compatibility''\<rparr>]"
    by simp
  have "routeToAgents ?env (example_agents ?env) ?i ''WDT780SAEM1'' ''u1'' compat_history waiting_world
     = (Inr (\<lparr>message = ''check: PS11752778 WDT780SAEM1'', products = None, actions = None\<rparr>,
             \<lparr>primary = ''compatibility_check'', confidence = 0.9, entities = []\<rparr>),
        world0\<lparr>redis := Some [context_key ''u1'' \<mapsto>
           awaiting_model\<lparr>expecting := None, lastIntent := Some ''compatibility_check'',
                          lastTopic := Some ''compatibility''\<rparr>]\<rparr>)"
    unfolding t
    by (simp add: compat_topic persistAndReturn_def setUserContext_def example_agents_def echo_def
          waiting_world_def world0_def e)
  then show ?thesis using st ex lp by simp
qed

text \<open>
  The claim says "regardless of the classified intent". With the same stored context, let
  the provider classify "WDT780SAEM1" as a general question with \<^verbatim>\<open>isFollowUp: true\<close>
  while the last assistant turn lists troubleshooting steps. The follow-up rule comes
  first and returns from \<^verbatim>\<open>routeToAgents\<close>: the open-ended handler answers the unchanged
  utterance, the metadata says \<^verbatim>\<open>general_question\<close>, and \<^verbatim>\<open>expecting\<close> is still set.
\<close>

theorem compatibility_continuation_counterexample:
  "getUserContext ''u1'' waiting_world = Inr awaiting_model
   \<and> expecting awaiting_model = Some ''model_number_for_compat''
   \<and> lastPart awaiting_model = Some ''PS11752778''
   \<and> processQuery
        (example_env (answered_call 0 ''{\"primary\": \"general_question\", \"confidence\": 0.9, \"entities\": {\"isFollowUp\": true}}'')
           (Some \<lparr>primary = ''general_question'', confidence = 0.9, entities = [(''isFollowUp'', EBool True)]\<rparr>)
           (answered_call 5 ''That looks like a model number.'') [])
        (example_agents (example_env (failing_call 0) None (failing_call 0) []))
        ''u1'' ''WDT780SAEM1'' follow_up_history waiting_world
     = (Inr \<lparr>res_message = ''That looks like a model number.'', res_products = [], res_actions = [],
             res_metadata = Metadata ''general_question'' 0.9\<rparr>,
        waiting_world\<lparr>provider_log := [DeepSeek, DeepSeek]\<rparr>)
   \<and> getUserContext ''u1'' (waiting_world\<lparr>provider_log := [DeepSeek, DeepSeek]\<rparr>) = Inr awaiting_model"
  by (simp add: getUserContext_def waiting_world_def awaiting_model_def empty_context_def
        processQuery_def classify_def followUpAfterTroubleshooting_def classifyWithProvider_def
        routeToAgents_def getConversationContext_def isFollowUp_def handleGeneralQuery_def
        formatResponse_def shouldOfferCompletion_def completionIndicators_def
        follow_up_history_def steps_given_def lastAssistantOf_def str_defs world_defs)

text \<open>
  Claim C3, as amended. Let classification succeed and the session context be read.
  If the handler that the request is routed to raises \<open>err\<close> (the open-ended handler
  under the follow-up rule, or else whatever the switch dispatches to), then
  \<^verbatim>\<open>processQuery\<close> raises \<open>err\<close> too: neither it nor \<^verbatim>\<open>routeToAgents\<close> catches anything.
  The catch is the chat route's: a request whose trimmed message is that query is
  answered with status 500, \<^verbatim>\<open>error: 'Server error'\<close> and the fixed apology as content,
  without products or actions.
\<close>

theorem handler_failure_propagates:
  assumes c: "classify env query history w = (Inr i, w1)"
      and g: "getUserContext userId w1 = Inr ctx"
      and h: "(isFollowUp i \<and> topic (getConversationContext history) = Some ''troubleshooting''
                \<and> handleGeneralQuery env query history w1 = (Inl err, w2))
            \<or> (\<not> (isFollowUp i \<and> topic (getConversationContext history) = Some ''troubleshooting'')
                \<and> continueCompatibilityFlow i query userId ctx w1 = (Inr (i1, query1, ctx1), w1')
                \<and> dispatch env ag i1 query1 ctx1 history userId w1' = (Inl err, w2))"
  shows "processQuery env ag userId query history w = (Inl err, w2)
       \<and> (trim message0 = query \<and> query \<noteq> []
            \<and> conversation env userId query w0 = (Inr (convId, history), w)
          \<longrightarrow> chat env ag userId message0 w0
                = (Json500 ''Server error'' ''I'm having trouble right now. Please try again shortly.'', w2))"
proof -
  have r: "routeToAgents env ag i query userId history w1 = (Inl err, w2)"
    using g h by (auto simp: routeToAgents_def Let_def persistAndReturn_def)
  have p: "processQuery env ag userId query history w = (Inl err, w2)"
    using c r by (simp add: processQuery_def)
  show ?thesis using p by (auto simp: chat_def chat_try_def Let_def)
qed

section \<open>Failures that reach the transport boundary\<close>

lemma install_part: "extractPartInfo install_question = Some ''PS11752778''"
  by (simp add: install_question_def extractPartInfo_def eight_digits_def is_digit_def is_word_def str_defs)

lemma install_classified:
  "classify install_env install_question [\<lparr>role = User, content = install_question\<rparr>] world0
     = (Inr install_intent,
        world0\<lparr>provider_log := [DeepSeek]\<rparr>)"
  by (simp add: install_env_def install_question_def classify_def followUpAfterTroubleshooting_def
        classifyWithProvider_def lastAssistantOf_def str_defs world_defs)

lemma install_guide_raises:
  "InstallationAgent_guide install_env install_question empty_context
      [\<lparr>role = User, content = install_question\<rparr>] (world0\<lparr>provider_log := [DeepSeek]\<rparr>)
     = (Inl OpenAIFailed, after_install_failure)"
  by (simp add: InstallationAgent_guide_def install_part getInstallationGuide_def install_env_def
        after_install_failure_def world_defs)

text \<open>
  The installation handler raises when both providers fail, and \<^verbatim>\<open>processQuery\<close> raises
  the same exception instead of returning a response.
\<close>

theorem handler_failure_counterexample:
  "processQuery install_env (example_agents install_env) ''u1'' install_question
      [\<lparr>role = User, content = install_question\<rparr>] world0
     = (Inl OpenAIFailed, after_install_failure)"
proof -
  have nfu: "\<not> isFollowUp install_intent" by (simp add: isFollowUp_def install_intent_def)
  have pr: "primary install_intent = ''installation_help''" by (simp add: install_intent_def)
  have g: "getUserContext ''u1'' (world0\<lparr>provider_log := [DeepSeek]\<rparr>) = Inr empty_context"
    by (simp add: getUserContext_def world0_def)
  have k: "continueCompatibilityFlow install_intent
             install_question ''u1'' empty_context (world0\<lparr>provider_log := [DeepSeek]\<rparr>)
          = (Inr (install_intent, install_question, empty_context),
             world0\<lparr>provider_log := [DeepSeek]\<rparr>)"
    by (simp add: continueCompatibilityFlow_def empty_context_def)
  have d: "dispatch install_env (example_agents install_env)
             install_intent install_question empty_context
             [\<lparr>role = User, content = install_question\<rparr>] ''u1'' (world0\<lparr>provider_log := [DeepSeek]\<rparr>)
          = (Inl OpenAIFailed, after_install_failure)"
    by (simp add: dispatch_def pr example_agents_def install_guide_raises)
  show ?thesis
    by (simp add: processQuery_def install_classified routeToAgents_def g k d nfu
          persistAndReturn_def)
qed

theorem handler_failure_propagates_witness:
  "classify install_env install_question [\<lparr>role = User, content = install_question\<rparr>] world0
     = (Inr install_intent,
        world0\<lparr>provider_log := [DeepSeek]\<rparr>)
   \<and> dispatch install_env (example_agents install_env)
             install_intent install_question empty_context
             [\<lparr>role = User, content = install_question\<rparr>] ''u1'' (world0\<lparr>provider_log := [DeepSeek]\<rparr>)
          = (Inl OpenAIFailed, after_install_failure)
   \<and> chat install_env (example_agents install_env) ''u1'' ''  How do I install PS11752778? '' world0
     = (Json500 ''Server error'' ''I'm having trouble right now. Please try again shortly.'', after_install_failure)"
proof -
  let ?i = "install_intent"
  have nfu: "\<not> isFollowUp install_intent" by (simp add: isFollowUp_def install_intent_def)
  have pr: "primary install_intent = ''installation_help''" by (simp add: install_intent_def)
  let ?w1 = "world0\<lparr>provider_log := [DeepSeek]\<rparr>"
  let ?h = "[\<lparr>role = User, content = install_question\<rparr>]"
  have g: "getUserContext ''u1'' ?w1 = Inr empty_context"
    by (simp add: getUserContext_def world0_def)
  have k: "continueCompatibilityFlow ?i install_question ''u1'' empty_context ?w1
          = (Inr (?i, install_question, empty_context), ?w1)"
    by (simp add: continueCompatibilityFlow_def empty_context_def)
  have d: "dispatch install_env (example_agents install_env) ?i install_question empty_context ?h ''u1'' ?w1
          = (Inl OpenAIFailed, after_install_failure)"
    by (simp add: dispatch_def pr example_agents_def install_guide_raises)
  have h: "(isFollowUp ?i \<and> topic (getConversationContext ?h) = Some ''troubleshooting''
                \<and> handleGeneralQuery install_env install_question ?h ?w1 = (Inl OpenAIFailed, after_install_failure))
            \<or> (\<not> (isFollowUp ?i \<and> topic (getConversationContext ?h) = Some ''troubleshooting'')
                \<and> continueCompatibilityFlow ?i install_question ''u1'' empty_context ?w1
                     = (Inr (?i, install_question, empty_context), ?w1)
                \<and> dispatch install_env (example_agents install_env) ?i install_question empty_context ?h ''u1'' ?w1
                     = (Inl OpenAIFailed, after_install_failure))"
    using k d nfu by simp
  have t: "trim ''  How do I install PS11752778? '' = install_question"
    by (simp add: install_question_def trim_def is_space_def)
  have n: "install_question \<noteq> []" by (simp add: install_question_def)
  have cv: "conversation install_env ''u1'' install_question world0 = (Inr (1, ?h), world0)"
    by (simp add: install_env_def example_env_def)
  show ?thesis
    using handler_failure_propagates[OF install_classified g h,
            of "''  How do I install PS11752778? ''" world0 1] t n cv d install_classified
    by simp
qed

text \<open>
  Claim C9 at failing inputs. With both providers failing, \<^verbatim>\<open>InstallationAgent.guide\<close>
  on a query that names a part, and \<^verbatim>\<open>OrderSupportAgent.assist\<close> on a general order
  question, raise the exception of \<^verbatim>\<open>callWithBreaker\<close>; with the breaker open inside its
  reset time, \<^verbatim>\<open>guide\<close> raises the circuit-open error. Neither has a try block around the
  call, as \<^verbatim>\<open>ProductSearchAgent.search\<close> has.
\<close>

theorem handlers_raise_on_provider_failure:
  "InstallationAgent_guide (example_env (failing_call 0) None (failing_call 5) []) ''How do I install PS11752778?''
      empty_context [] world0
     = (Inl OpenAIFailed,
        world0\<lparr>breaker := \<lparr>circuitBreakerState = CLOSED, failureCount = 1, lastFailureTime = 6\<rparr>,
               provider_log := [DeepSeek, OpenAI]\<rparr>)
   \<and> OrderSupportAgent_assist (example_env (failing_call 0) None (failing_call 5) []) ''I was charged twice for my order''
      empty_context [] world0
     = (Inl OpenAIFailed,
        world0\<lparr>breaker := \<lparr>circuitBreakerState = CLOSED, failureCount = 1, lastFailureTime = 6\<rparr>,
               provider_log := [DeepSeek, OpenAI]\<rparr>)
   \<and> InstallationAgent_guide (example_env (failing_call 0) None (answered_call 5 ''ok'') []) ''How do I install PS11752778?''
      empty_context [] (world0\<lparr>breaker := \<lparr>circuitBreakerState = OPEN, failureCount = 3, lastFailureTime = 4\<rparr>\<rparr>)
     = (Inl CircuitOpen, world0\<lparr>breaker := \<lparr>circuitBreakerState = OPEN, failureCount = 3, lastFailureTime = 4\<rparr>\<rparr>)"
proof -
  have p: "extractPartInfo ''How do I install PS11752778?'' = Some ''PS11752778''"
    using install_part by (simp add: install_question_def)
  have o: "classifyOrderIntent ''I was charged twice for my order'' = ''general''"
    by (simp add: classifyOrderIntent_def str_defs)
  show ?thesis
    by (simp add: InstallationAgent_guide_def p getInstallationGuide_def
          OrderSupportAgent_assist_def o handleGeneralOrderQuery_def world_defs)
qed

text \<open>
  Claim C8 at failing inputs. For the intent \<^verbatim>\<open>out_of_scope\<close>, and for a tag outside the
  recognised set, the switch reaches its default branch, where the call of the missing
  method raises. \<^verbatim>\<open>processQuery\<close> raises with it, and the chat route answers with status 500.
\<close>

theorem out_of_scope_dispatch_fails:
  "dispatch env ag \<lparr>primary = ''out_of_scope'', confidence = c, entities = es\<rparr> query ctx history userId w
     = (Inl (NotAFunction ''this.handleOutOfScope''), w)
   \<and> dispatch env ag \<lparr>primary = ''small_talk'', confidence = c, entities = es\<rparr> query ctx history userId w
     = (Inl (NotAFunction ''this.handleOutOfScope''), w)
   \<and> processQuery weather_env (example_agents weather_env) ''u1'' ''What is the weather today?''
        [\<lparr>role = User, content = ''What is the weather today?''\<rparr>] world0
     = (Inl (NotAFunction ''this.handleOutOfScope''), world0\<lparr>provider_log := [DeepSeek]\<rparr>)
   \<and> chat weather_env (example_agents weather_env) ''u1'' ''What is the weather today?'' world0
     = (Json500 ''Server error'' ''I'm having trouble right now. Please try again shortly.'',
        world0\<lparr>provider_log := [DeepSeek]\<rparr>)"
proof -
  have a: "dispatch env ag \<lparr>primary = ''out_of_scope'', confidence = c, entities = es\<rparr> query ctx history userId w
     = (Inl (NotAFunction ''this.handleOutOfScope''), w)"
    by (simp add: dispatch_def)
  have b: "dispatch env ag \<lparr>primary = ''small_talk'', confidence = c, entities = es\<rparr> query ctx history userId w
     = (Inl (NotAFunction ''this.handleOutOfScope''), w)"
    by (simp add: dispatch_def)
  have cl: "classify weather_env ''What is the weather today?''
              [\<lparr>role = User, content = ''What is the weather today?''\<rparr>] world0
     = (Inr weather_intent, world0\<lparr>provider_log := [DeepSeek]\<rparr>)"
    by (simp add: weather_env_def classify_def followUpAfterTroubleshooting_def
        classifyWithProvider_def lastAssistantOf_def str_defs world_defs)
  have p: "processQuery weather_env (example_agents weather_env) ''u1'' ''What is the weather today?''
        [\<lparr>role = User, content = ''What is the weather today?''\<rparr>] world0
     = (Inl (NotAFunction ''this.handleOutOfScope''), world0\<lparr>provider_log := [DeepSeek]\<rparr>)"
  proof -
    have g: "getUserContext ''u1'' (world0\<lparr>provider_log := [DeepSeek]\<rparr>) = Inr empty_context"
      by (simp add: getUserContext_def world0_def)
    have nfu: "\<not> isFollowUp weather_intent" by (simp add: isFollowUp_def weather_intent_def)
    have pr: "primary weather_intent = ''out_of_scope''" by (simp add: weather_intent_def)
    show ?thesis
      by (simp add: processQuery_def cl routeToAgents_def g nfu pr
            continueCompatibilityFlow_def empty_context_def persistAndReturn_def dispatch_def)
  qed
  have t: "trim ''What is the weather today?'' = ''What is the weather today?''"
    by (simp add: trim_def is_space_def)
  have cv: "conversation weather_env ''u1'' ''What is the weather today?'' world0
     = (Inr (1, [\<lparr>role = User, content = ''What is the weather today?''\<rparr>]), world0)"
    by (simp add: weather_env_def example_env_def)
  have ch: "chat weather_env (example_agents weather_env) ''u1'' ''What is the weather today?'' world0
     = (Json500 ''Server error'' ''I'm having trouble right now. Please try again shortly.'',
        world0\<lparr>provider_log := [DeepSeek]\<rparr>)"
    by (simp add: chat_def chat_try_def t cv p)
  show ?thesis using a b p ch by blast
qed

text \<open>
  Claim C2 at failing inputs. With Redis unreachable, \<^verbatim>\<open>getUserContext\<close> and
  \<^verbatim>\<open>setUserContext\<close> raise for every user, and so does \<^verbatim>\<open>routeToAgents\<close>, whose first
  statement reads the context; the wrappers \<^verbatim>\<open>safeRedisGet\<close> and \<^verbatim>\<open>safeRedisSet\<close>, which the
  session context does not go through, return \<^verbatim>\<open>null\<close> and do nothing. A follow-up
  question that needs no provider at all is answered with status 500.
\<close>

theorem session_context_cache_down:
  "getUserContext userId (w\<lparr>redis := None\<rparr>) = Inl RedisUnavailable
   \<and> setUserContext userId ctx (w\<lparr>redis := None\<rparr>) = (Inl RedisUnavailable, w\<lparr>redis := None\<rparr>)
   \<and> routeToAgents env ag i query userId history (w\<lparr>redis := None\<rparr>)
       = (Inl RedisUnavailable, w\<lparr>redis := None\<rparr>)
   \<and> safeRedisGet key (w\<lparr>redis := None\<rparr>) = None
   \<and> safeRedisSet key ctx (w\<lparr>redis := None\<rparr>) = w\<lparr>redis := None\<rparr>
   \<and> chat follow_up_env (example_agents follow_up_env) ''u1'' ''Should I call a technician?''
        (world0\<lparr>redis := None\<rparr>)
       = (Json500 ''Server error'' ''I'm having trouble right now. Please try again shortly.'',
          world0\<lparr>redis := None\<rparr>)"
proof -
  have r: "routeToAgents env ag i query userId history (w\<lparr>redis := None\<rparr>)
       = (Inl RedisUnavailable, w\<lparr>redis := None\<rparr>)" for env ag i query userId history w
    by (simp add: routeToAgents_def getUserContext_def)
  have t: "trim ''Should I call a technician?'' = ''Should I call a technician?''"
    by (simp add: trim_def is_space_def)
  have cv: "conversation follow_up_env ''u1'' ''Should I call a technician?'' (world0\<lparr>redis := None\<rparr>)
     = (Inr (1, steps_given @ [\<lparr>role = User, content = ''Should I call a technician?''\<rparr>]), world0\<lparr>redis := None\<rparr>)"
    by (simp add: follow_up_env_def example_env_def)
  have cl: "classify follow_up_env ''Should I call a technician?''
              (steps_given @ [\<lparr>role = User, content = ''Should I call a technician?''\<rparr>]) (world0\<lparr>redis := None\<rparr>)
     = (Inr followUpIntent, world0\<lparr>redis := None\<rparr>)"
    by (simp add: classify_def followUpAfterTroubleshooting_def steps_given_def lastAssistantOf_def str_defs)
  have ch: "chat follow_up_env (example_agents follow_up_env) ''u1'' ''Should I call a technician?''
        (world0\<lparr>redis := None\<rparr>)
       = (Json500 ''Server error'' ''I'm having trouble right now. Please try again shortly.'',
          world0\<lparr>redis := None\<rparr>)"
    by (simp add: chat_def chat_try_def t cv processQuery_def cl r)
  show ?thesis using r ch
    by (simp add: getUserContext_def setUserContext_def safeRedisGet_def safeRedisSet_def)
qed

end
